theory Spec2Isabelle
  imports Complex_Main
begin

section \<open>WS-Security UsernameToken validation (internal/onvif/soap/auth.go)\<close>

text \<open>
  Instants and durations are integers counting nanoseconds, as Go's \<open>time.Duration\<close>
  does; an instant is the number of nanoseconds since the Unix epoch.
\<close>

type_synonym time = int

definition minute :: int where
  "minute = 60 * 1000000000"

definition nonceTTL :: int where
  "nonceTTL = 5 * minute"

record Password =
  Type :: string
  Value :: string

record UsernameToken =
  Username :: string
  Password :: Password
  Nonce :: string
  Created :: string

record Security =
  UsernameToken :: UsernameToken

text \<open>
  One constructor for every \<open>fmt.Errorf\<close> of \<open>ValidateUsernameToken\<close>, in source order,
  preceded by the envelope parse error of the caller \<open>validateAuth\<close> in server.go.
\<close>

datatype auth_error =
    EnvelopeParseFailed
  | MissingSecurityHeader
  | InvalidCredentials
  | NonceCreatedRequired
  | NonceAlreadyUsed
  | InvalidCreatedTimestamp
  | TimestampOutOfRange
  | InvalidNonceEncoding
  | UnsupportedPasswordType string

text \<open>
  The functions of Go's standard library that the validator calls are parameters of the
  model: \<open>time.Parse(time.RFC3339, _)\<close>, \<open>base64.StdEncoding.DecodeString\<close>,
  \<open>base64.StdEncoding.EncodeToString\<close> and the SHA-1 hash of a byte string. A parse or
  decode error is \<open>None\<close>.
\<close>

record std_lib =
  time_Parse_RFC3339 :: "string \<Rightarrow> time option"
  base64_DecodeString :: "string \<Rightarrow> string option"
  base64_EncodeToString :: "string \<Rightarrow> string"
  sha1_Sum :: "string \<Rightarrow> string"

text \<open>\<open>subtle.ConstantTimeCompare\<close> returns 1 when the two byte strings are equal, else 0.\<close>

definition ConstantTimeCompare :: "string \<Rightarrow> string \<Rightarrow> nat" where
  "ConstantTimeCompare x y = (if x = y then 1 else 0)"

text \<open>
  \<open>sync.Map.LoadOrStore\<close>: the existing value and \<open>True\<close> when the key is present,
  otherwise the given value is stored and returned with \<open>False\<close>.
\<close>

definition LoadOrStore :: "('k \<rightharpoonup> 'v) \<Rightarrow> 'k \<Rightarrow> 'v \<Rightarrow> ('v \<times> bool) \<times> ('k \<rightharpoonup> 'v)" where
  "LoadOrStore m k v =
     (case m k of
        Some a \<Rightarrow> ((a, True), m)
      | None \<Rightarrow> ((v, False), m(k \<mapsto> v)))"

definition PasswordDigest_URI :: string where
  "PasswordDigest_URI =
     ''http://docs.oasis-open.org/wss/2004/01/oasis-200401-wss-username-token-profile-1.0#PasswordDigest''"

text \<open>
  The URI that WS-Security 1.0 assigns to plaintext passwords. The source never mentions
  it; it is defined here only to state what the validator does when a client sends it.
\<close>

definition PasswordText_URI :: string where
  "PasswordText_URI =
     ''http://docs.oasis-open.org/wss/2004/01/oasis-200401-wss-username-token-profile-1.0#PasswordText''"

text \<open>
  The digest branch after the presence check of nonce and created: the nonce is stored
  first (with the instant \<open>t_store\<close> read by the first \<open>time.Now()\<close>), then the timestamp
  is parsed and compared with the instant \<open>t_check\<close> read by the second \<open>time.Now()\<close>,
  then the nonce is decoded and the digest compared.
\<close>

definition digest_checks ::
  "std_lib \<Rightarrow> time \<Rightarrow> time \<Rightarrow> (string \<rightharpoonup> time) \<Rightarrow> string \<Rightarrow> string \<Rightarrow> string \<Rightarrow> string
     \<Rightarrow> auth_error option \<times> (string \<rightharpoonup> time)" where
  "digest_checks lib t_store t_check usedNonces password nonce created expectedPassword =
     (let (exists, used') =
            (if nonce \<noteq> [] then
               (case LoadOrStore usedNonces nonce t_store of ((_, loaded), m) \<Rightarrow> (loaded, m))
             else (False, usedNonces))
      in if exists then (Some NonceAlreadyUsed, used')
         else
           (case time_Parse_RFC3339 lib created of
              None \<Rightarrow> (Some InvalidCreatedTimestamp, used')
            | Some createdTime \<Rightarrow>
                if createdTime < t_check - 5 * minute \<or> createdTime > t_check + 5 * minute
                then (Some TimestampOutOfRange, used')
                else
                  (case base64_DecodeString lib nonce of
                     None \<Rightarrow> (Some InvalidNonceEncoding, used')
                   | Some nonceBytes \<Rightarrow>
                       let expectedDigest =
                             base64_EncodeToString lib
                               (sha1_Sum lib (nonceBytes @ created @ expectedPassword))
                       in if ConstantTimeCompare password expectedDigest \<noteq> 1
                          then (Some InvalidCredentials, used')
                          else (None, used'))))"

text \<open>
  \<open>ValidateUsernameToken\<close>. The result \<open>None\<close> is Go's \<open>nil\<close> error (the token is
  accepted); the second component is the process-wide \<open>usedNonces\<close> map after the call.
  A \<open>nil\<close> security pointer is \<open>None\<close>.
\<close>

definition ValidateUsernameToken ::
  "std_lib \<Rightarrow> time \<Rightarrow> time \<Rightarrow> (string \<rightharpoonup> time) \<Rightarrow> Security option \<Rightarrow> string \<Rightarrow> string
     \<Rightarrow> auth_error option \<times> (string \<rightharpoonup> time)" where
  "ValidateUsernameToken lib t_store t_check usedNonces security expectedUsername expectedPassword =
     (case security of
        None \<Rightarrow> (Some MissingSecurityHeader, usedNonces)
      | Some sec \<Rightarrow>
          let username = Username (UsernameToken sec);
              password = Value (Password (UsernameToken sec));
              nonce = Nonce (UsernameToken sec);
              created = Created (UsernameToken sec)
          in if ConstantTimeCompare username expectedUsername \<noteq> 1
             then (Some InvalidCredentials, usedNonces)
             else if Type (Password (UsernameToken sec)) = []
             then (if ConstantTimeCompare password expectedPassword \<noteq> 1
                   then (Some InvalidCredentials, usedNonces)
                   else (None, usedNonces))
             else if Type (Password (UsernameToken sec)) = PasswordDigest_URI
             then (if nonce = [] \<or> created = []
                   then (Some NonceCreatedRequired, usedNonces)
                   else digest_checks lib t_store t_check usedNonces password nonce created
                          expectedPassword)
             else (Some (UnsupportedPasswordType (Type (Password (UsernameToken sec)))),
                   usedNonces))"

text \<open>
  What the design calls a valid token, in the words of the validator's contract: the
  username equals the configured one, and either the password type is empty and the
  password equals the configured one (plaintext mode), or the type is the PasswordDigest
  URI, nonce and created are present, the nonce has not been recorded, created parses and
  lies within five minutes of \<open>now\<close>, the nonce decodes, and the password is the base64
  text of the SHA-1 hash of decoded nonce, created and configured password.
\<close>

definition credentials_ok ::
  "std_lib \<Rightarrow> time \<Rightarrow> (string \<rightharpoonup> time) \<Rightarrow> Security \<Rightarrow> string \<Rightarrow> string \<Rightarrow> bool" where
  "credentials_ok lib now used sec expectedUsername expectedPassword =
     (Username (UsernameToken sec) = expectedUsername
      \<and> (if Type (Password (UsernameToken sec)) = []
          then Value (Password (UsernameToken sec)) = expectedPassword
          else Type (Password (UsernameToken sec)) = PasswordDigest_URI
             \<and> Nonce (UsernameToken sec) \<noteq> []
             \<and> Created (UsernameToken sec) \<noteq> []
             \<and> used (Nonce (UsernameToken sec)) = None
             \<and> (case time_Parse_RFC3339 lib (Created (UsernameToken sec)) of
                    None \<Rightarrow> False
                  | Some createdTime \<Rightarrow>
                      now - 5 * minute \<le> createdTime \<and> createdTime \<le> now + 5 * minute)
             \<and> (case base64_DecodeString lib (Nonce (UsernameToken sec)) of
                    None \<Rightarrow> False
                  | Some nonceBytes \<Rightarrow>
                      Value (Password (UsernameToken sec))
                        = base64_EncodeToString lib
                            (sha1_Sum lib (nonceBytes @ Created (UsernameToken sec)
                                             @ expectedPassword)))))"

text \<open>
  One tick of \<open>cleanupNonces\<close>: every entry whose age at the instant \<open>now\<close> exceeds
  \<open>nonceTTL\<close> is deleted.
\<close>

definition cleanupNonces_tick :: "time \<Rightarrow> (string \<rightharpoonup> time) \<Rightarrow> (string \<rightharpoonup> time)" where
  "cleanupNonces_tick now usedNonces =
     (\<lambda>key. case usedNonces key of
               None \<Rightarrow> None
             | Some timestamp \<Rightarrow> if now - timestamp > nonceTTL then None else Some timestamp)"

text \<open>
  A sequence of validations against the same configured credentials, each with the two
  instants its clock reads return; the results are listed in order of arrival.
\<close>

fun validate_all ::
  "std_lib \<Rightarrow> string \<Rightarrow> string \<Rightarrow> (string \<rightharpoonup> time) \<Rightarrow> (time \<times> time \<times> Security) list
     \<Rightarrow> auth_error option list \<times> (string \<rightharpoonup> time)" where
  "validate_all lib eu ep used [] = ([], used)"
| "validate_all lib eu ep used ((t1, t2, sec) # reqs) =
     (case ValidateUsernameToken lib t1 t2 used (Some sec) eu ep of
        (r, used') \<Rightarrow>
          (case validate_all lib eu ep used' reqs of
             (rs, used'') \<Rightarrow> (r # rs, used'')))"

text \<open>The number of accepted digest-mode validations in a run that presented the nonce \<open>n\<close>.\<close>

fun accepted_with :: "string \<Rightarrow> (time \<times> time \<times> Security) list \<Rightarrow> auth_error option list \<Rightarrow> nat" where
  "accepted_with n ((t1, t2, sec) # reqs) (r # rs) =
     (if r = None \<and> Type (Password (UsernameToken sec)) = PasswordDigest_URI
         \<and> Nonce (UsernameToken sec) = n
      then 1 else 0) + accepted_with n reqs rs"
| "accepted_with n _ _ = 0"

text \<open>
  Values of the library functions at the inputs used in the examples below: the RFC 3339
  string of 2024-01-01 00:00:00 UTC, the base64 text of the eight bytes \<open>12345678\<close>, and
  the SHA-1 hash (and its base64 text) of \<open>12345678\<close>, the timestamp and the password
  \<open>secret\<close>. Every other input is mapped to an error or to the empty string.
\<close>

definition example_created :: string where
  "example_created = ''2024-01-01T00:00:00Z''"

definition example_nonce :: string where
  "example_nonce = ''MTIzNDU2Nzg=''"

definition example_digest :: string where
  "example_digest = ''X3MEe7+ZPWyNYAH3iZSyC92osAw=''"

definition example_sha1 :: string where
  "example_sha1 =
     map char_of
       [95, 115, 4, 123, 191, 153, 61, 108, 141, 96, 1, 247, 137, 148, 178, 11, 221, 168, 176, 12 :: nat]"

definition example_lib :: std_lib where
  "example_lib =
     \<lparr> time_Parse_RFC3339 =
         (\<lambda>s. if s = example_created then Some 1704067200000000000 else None),
       base64_DecodeString = (\<lambda>s. if s = example_nonce then Some ''12345678'' else None),
       base64_EncodeToString = (\<lambda>s. if s = example_sha1 then example_digest else []),
       sha1_Sum =
         (\<lambda>s. if s = ''12345678'' @ example_created @ ''secret'' then example_sha1 else []) \<rparr>"

definition digest_token :: "string \<Rightarrow> string \<Rightarrow> string \<Rightarrow> string \<Rightarrow> Security" where
  "digest_token u p n c =
     \<lparr> UsernameToken =
         \<lparr> Username = u, Password = \<lparr> Type = PasswordDigest_URI, Value = p \<rparr>,
           Nonce = n, Created = c \<rparr> \<rparr>"

section \<open>Relay orchestration client (internal/mediamtx/client.go)\<close>

text \<open>
  An outbound HTTP call either fails in the transport (\<open>httpClient.Do\<close> returns an error)
  or yields a status code and the bytes read from the response body.
\<close>

datatype http_reply =
    TransportError string
  | HttpReply nat string

record http_request =
  req_method :: string
  req_url :: string
  req_body :: string

text \<open>
  The remote server is a function from the requests sent so far and the current request
  to its reply: this covers every deterministic server, and the history is exactly the
  list of requests the client has issued. \<open>http_Do\<close> performs one call and appends it.
\<close>

type_synonym http_server = "http_request list \<Rightarrow> http_request \<Rightarrow> http_reply"

definition http_Do ::
  "http_server \<Rightarrow> http_request list \<Rightarrow> http_request \<Rightarrow> http_reply \<times> http_request list" where
  "http_Do srv hist req = (srv hist req, hist @ [req])"

record PathConfig =
  RunOnDemand :: string
  RunOnDemandRestart :: bool
  RunOnDemandCloseAfter :: string
  Source :: string
  SourceOnDemand :: bool
  RTSPTransport :: string

record Client =
  baseURL :: string

text \<open>
  Library functions used by the HTTP clients of the gateway, as parameters:
  \<open>json.Marshal\<close> of a \<open>PathConfig\<close> and of a camera \<open>CommandRequest\<close> with the given
  \<open>Exec\<close> string (\<open>None\<close> is an error), whether \<open>http.NewRequest\<close> accepts a method and
  URL, \<open>json.Unmarshal\<close> of a response body into \<open>ErrorResponse\<close> (\<open>None\<close> when it
  returns an error, otherwise the decoded \<open>Error\<close> field), and \<open>mqtt.PublishMessage\<close>
  with broker, topic and message (\<open>None\<close> is success, otherwise the error text).
\<close>

record net_lib =
  json_Marshal_PathConfig :: "PathConfig \<Rightarrow> string option"
  json_Marshal_CommandRequest :: "string \<Rightarrow> string option"
  http_NewRequest_ok :: "string \<Rightarrow> string \<Rightarrow> bool"
  json_Unmarshal_ErrorResponse :: "string \<Rightarrow> string option"
  mqtt_PublishMessage :: "string \<Rightarrow> string \<Rightarrow> string \<Rightarrow> string option"

text \<open>
  The errors of \<open>addPath\<close>, \<open>deletePath\<close> and \<open>ConfigurePath\<close>. \<open>ApiError\<close> is the
  \<open>*apiError\<close> value; the two last constructors are the \<open>%w\<close> wrappers of
  \<open>ConfigurePath\<close> around the inner error.
\<close>

datatype mtx_error =
    ApiError nat string
  | MarshalFailed
  | CreateRequestFailed
  | AddPathFailed string
  | DeletePathFailed string
  | UnexpectedStatusCode nat string
  | DeleteExistingFailed string mtx_error
  | RecreateFailed string mtx_error

definition add_request :: "Client \<Rightarrow> string \<Rightarrow> string \<Rightarrow> http_request" where
  "add_request c name payload =
     \<lparr> req_method = ''POST'', req_url = baseURL c @ ''/v3/config/paths/add/'' @ name, req_body = payload \<rparr>"

definition delete_request :: "Client \<Rightarrow> string \<Rightarrow> http_request" where
  "delete_request c name =
     \<lparr> req_method = ''DELETE'', req_url = baseURL c @ ''/v3/config/paths/delete/'' @ name, req_body = [] \<rparr>"

definition addPath ::
  "net_lib \<Rightarrow> http_server \<Rightarrow> Client \<Rightarrow> http_request list \<Rightarrow> string \<Rightarrow> PathConfig
     \<Rightarrow> mtx_error option \<times> http_request list" where
  "addPath lib srv c hist name cfg =
     (case json_Marshal_PathConfig lib cfg of
        None \<Rightarrow> (Some MarshalFailed, hist)
      | Some payload \<Rightarrow>
          if \<not> http_NewRequest_ok lib ''POST'' (req_url (add_request c name payload))
          then (Some CreateRequestFailed, hist)
          else
            (case http_Do srv hist (add_request c name payload) of
               (TransportError e, hist') \<Rightarrow> (Some (AddPathFailed e), hist')
             | (HttpReply status bodyBytes, hist') \<Rightarrow>
                 if status \<noteq> 200 then
                   (case json_Unmarshal_ErrorResponse lib bodyBytes of
                      Some msg \<Rightarrow>
                        if msg \<noteq> [] then (Some (ApiError status msg), hist')
                        else (Some (UnexpectedStatusCode status bodyBytes), hist')
                    | None \<Rightarrow> (Some (UnexpectedStatusCode status bodyBytes), hist'))
                 else (None, hist')))"

definition deletePath ::
  "net_lib \<Rightarrow> http_server \<Rightarrow> Client \<Rightarrow> http_request list \<Rightarrow> string
     \<Rightarrow> mtx_error option \<times> http_request list" where
  "deletePath lib srv c hist name =
     (if \<not> http_NewRequest_ok lib ''DELETE'' (req_url (delete_request c name))
      then (Some CreateRequestFailed, hist)
      else
        (case http_Do srv hist (delete_request c name) of
           (TransportError e, hist') \<Rightarrow> (Some (DeletePathFailed e), hist')
         | (HttpReply status bodyBytes, hist') \<Rightarrow>
             if status \<noteq> 200 then (Some (UnexpectedStatusCode status bodyBytes), hist')
             else (None, hist')))"

fun isPathExistsError :: "mtx_error \<Rightarrow> bool" where
  "isPathExistsError (ApiError statusCode message) =
     (statusCode = 400 \<and> message = ''path already exists'')"
| "isPathExistsError _ = False"

definition ConfigurePath ::
  "net_lib \<Rightarrow> http_server \<Rightarrow> Client \<Rightarrow> http_request list \<Rightarrow> string \<Rightarrow> PathConfig
     \<Rightarrow> mtx_error option \<times> http_request list" where
  "ConfigurePath lib srv c hist name cfg =
     (case addPath lib srv c hist name cfg of
        (None, h1) \<Rightarrow> (None, h1)
      | (Some err, h1) \<Rightarrow>
          if isPathExistsError err then
            (case deletePath lib srv c h1 name of
               (Some derr, h2) \<Rightarrow> (Some (DeleteExistingFailed name derr), h2)
             | (None, h2) \<Rightarrow>
                 (case addPath lib srv c h2 name cfg of
                    (Some aerr, h3) \<Rightarrow> (Some (RecreateFailed name aerr), h3)
                  | (None, h3) \<Rightarrow> (None, h3)))
          else (Some err, h1))"

text \<open>
  The already-exists signal as the relay sends it: status 400 with a body whose decoded
  \<open>error\<close> field is the text \<open>path already exists\<close>.
\<close>

fun exists_signal :: "net_lib \<Rightarrow> http_reply \<Rightarrow> bool" where
  "exists_signal lib (HttpReply status bodyBytes) =
     (status = 400 \<and> json_Unmarshal_ErrorResponse lib bodyBytes = Some ''path already exists'')"
| "exists_signal lib (TransportError e) = False"

text \<open>Whether a call came back with status 200.\<close>

fun reply_ok :: "http_reply \<Rightarrow> bool" where
  "reply_ok (HttpReply status bodyBytes) = (status = 200)"
| "reply_ok (TransportError e) = False"

text \<open>
  Example values: the JSON texts of the empty path configuration and of camera commands
  without characters that need escaping, the literal body
  \<open>{"error":"path already exists"}\<close> with its decoding, and a relay that already holds
  the path: it answers the first create with the already-exists body and every later
  request with 200.
\<close>

definition exists_body :: string where
  \<open>exists_body = ''{"error":"path already exists"}''\<close>

definition exec_json :: "string \<Rightarrow> string" where
  \<open>exec_json command = ''{"exec":"'' @ command @ ''"}''\<close>

definition example_net_lib :: net_lib where
  "example_net_lib =
     \<lparr> json_Marshal_PathConfig = (\<lambda>cfg. Some ''{}''),
       json_Marshal_CommandRequest = (\<lambda>command. Some (exec_json command)),
       http_NewRequest_ok = (\<lambda>m u. True),
       json_Unmarshal_ErrorResponse =
         (\<lambda>b. if b = exists_body then Some ''path already exists'' else None),
       mqtt_PublishMessage = (\<lambda>broker topic message. None) \<rparr>"

definition stale_relay :: http_server where
  "stale_relay hist req = (if hist = [] then HttpReply 400 exists_body else HttpReply 200 [])"

definition broken_relay :: http_server where
  "broken_relay hist req = HttpReply 500 ''internal error''"

definition example_client :: Client where
  "example_client = \<lparr> baseURL = ''http://mediamtx:9997'' \<rparr>"

definition empty_PathConfig :: PathConfig where
  "empty_PathConfig =
     \<lparr> RunOnDemand = [], RunOnDemandRestart = False, RunOnDemandCloseAfter = [],
       Source = [], SourceOnDemand = False, RTSPTransport = [] \<rparr>"

section \<open>PTZ coordinate transform (internal/onvif/ptz/coordinate.go)\<close>

text \<open>
  A \<open>float64\<close> is modelled by the real number it denotes; NaN and the infinities are
  outside the model. Every rounded \<open>float64\<close> operation of the source is the exact real
  operation followed by \<open>fl\<close>, the rounding of a real result to a \<open>float64\<close>, which is
  a parameter of the model (operations are rounded one by one, without fused
  multiply-add). With the identity for \<open>fl\<close> the arithmetic is exact. Go's \<open>int\<close> is
  modelled by the unbounded integers: the conversions \<open>int(f)\<close> below are applied to
  values well inside the 63-bit range for the inputs the theorems speak about.

  \<open>binary64_rounding\<close> is the standard error bound of IEEE 754 round-to-nearest in
  double precision: relative error at most \<open>2^-53\<close>, or absolute error at most
  \<open>2^-1075\<close> for results in the subnormal range, for every real below the overflow
  threshold.
\<close>

definition binary64_rounding :: "(real \<Rightarrow> real) \<Rightarrow> bool" where
  "binary64_rounding fl = (\<forall>r. \<bar>r\<bar> \<le> 2 ^ 1023 \<longrightarrow> \<bar>fl r - r\<bar> \<le> \<bar>r\<bar> / 2 ^ 53 + 1 / 2 ^ 1075)"

text \<open>\<open>math.Round\<close>: the nearest integer, halves rounded away from zero.\<close>

definition math_Round :: "real \<Rightarrow> real" where
  "math_Round x = (if x < 0 then - of_int \<lfloor>- x + 1 / 2\<rfloor> else of_int \<lfloor>x + 1 / 2\<rfloor>)"

text \<open>The conversion \<open>int(f)\<close> of a \<open>float64\<close>: the fraction is discarded (truncation towards zero).\<close>

definition go_int :: "real \<Rightarrow> int" where
  "go_int f = (if f < 0 then - \<lfloor>- f\<rfloor> else \<lfloor>f\<rfloor>)"

definition clamp :: "real \<Rightarrow> real \<Rightarrow> real \<Rightarrow> real" where
  "clamp val mn mx = (if val < mn then mn else if val > mx then mx else val)"

definition ONVIFToAtomCam :: "(real \<Rightarrow> real) \<Rightarrow> real \<Rightarrow> real \<Rightarrow> real \<Rightarrow> int \<times> int \<times> int" where
  "ONVIFToAtomCam fl x0 y0 velocity0 =
     (let x = clamp x0 (- 1) 1;
          y = clamp y0 (- 1) 1;
          velocity = clamp velocity0 0 1;
          pan = go_int (math_Round (fl (fl (x + 1) * 177.5)));
          tilt = go_int (math_Round (fl (fl (1 - y) * 90)));
          speed0 = go_int (math_Round (fl (velocity * 8))) + 1;
          speed1 = (if speed0 < 1 then 1 else speed0);
          speed = (if speed1 > 9 then 9 else speed1)
      in (pan, tilt, speed))"

definition AtomCamToONVIF :: "(real \<Rightarrow> real) \<Rightarrow> int \<Rightarrow> int \<Rightarrow> real \<times> real" where
  "AtomCamToONVIF fl pan tilt =
     (let x = fl (fl (fl (of_int pan) / 177.5) - 1);
          y = fl (1 - fl (fl (of_int tilt) / 90))
      in (clamp x (- 1) 1, clamp y (- 1) 1))"

text \<open>The round trip of the claim: ONVIF coordinates to native degrees and back.\<close>

definition round_trip :: "(real \<Rightarrow> real) \<Rightarrow> real \<Rightarrow> real \<Rightarrow> real \<Rightarrow> real \<times> real" where
  "round_trip fl x y velocity =
     (case ONVIFToAtomCam fl x y velocity of (pan, tilt, speed) \<Rightarrow> AtomCamToONVIF fl pan tilt)"

section \<open>Camera registry and control client (internal/camera)\<close>

text \<open>
  The configuration structs of internal/config, with the fields the PTZ code reads. The
  preset's name and the capability flags are prefixed because another struct already has
  a field \<open>Name\<close> or \<open>PTZ\<close>.
\<close>

record PTZPreset =
  PresetName :: string
  Pan :: int
  Tilt :: int
  Token :: string
  MQTTBroker :: string
  MQTTTopic :: string
  MQTTMessage :: string

record PTZConfig =
  Home :: "PTZPreset option"
  Presets :: "PTZPreset list"
  HorizontalFOV :: real
  VerticalFOV :: real

record CapabilitiesConfig =
  CapPTZ :: bool
  CapIR :: bool

record StreamConfig =
  Path :: string
  Resolution :: string
  Codec :: string
  ProfileName :: string
  RTSPURL :: string

record CameraConfig =
  Name :: string
  Host :: string
  HTTPPort :: int
  Capabilities :: CapabilitiesConfig
  Streams :: "StreamConfig list"
  PTZ :: PTZConfig

text \<open>
  A camera: its configuration, the health flag and the tracked PTZ position. The control
  client of a camera is determined by its configuration.
\<close>

record Camera =
  Config :: CameraConfig
  health :: bool
  ptzPan :: int
  ptzTilt :: int

definition NewCamera :: "CameraConfig \<Rightarrow> Camera" where
  "NewCamera cfg =
     (case Home (PTZ cfg) of
        Some h \<Rightarrow> \<lparr> Config = cfg, health = True, ptzPan = Pan h, ptzTilt = Tilt h \<rparr>
      | None \<Rightarrow> \<lparr> Config = cfg, health = True, ptzPan = 177, ptzTilt = 90 \<rparr>)"

text \<open>
  The registry's cameras are listed in the order in which a \<open>range\<close> over the Go map
  visits them; a profile points to its camera by the position in that list, as the
  \<open>*Camera\<close> pointer of the source does. The state of the PTZ service is the registry
  together with the requests sent to the cameras so far.
\<close>

record Profile =
  CameraIx :: nat
  Stream :: StreamConfig

record ptz_state =
  cameras :: "Camera list"
  wire :: "http_request list"

definition GetAllProfiles :: "Camera list \<Rightarrow> Profile list" where
  "GetAllProfiles cams =
     concat (map (\<lambda>(i, cam). map (\<lambda>stream. \<lparr> CameraIx = i, Stream = stream \<rparr>)
                                 (Streams (Config cam)))
                 (enumerate 0 cams))"

definition GetProfileByToken :: "Camera list \<Rightarrow> string \<Rightarrow> Profile option" where
  "GetProfileByToken cams token = find (\<lambda>p. ProfileName (Stream p) = token) (GetAllProfiles cams)"

definition GetPTZPosition :: "ptz_state \<Rightarrow> nat \<Rightarrow> int \<times> int" where
  "GetPTZPosition st ix = (ptzPan (cameras st ! ix), ptzTilt (cameras st ! ix))"

definition SetPTZPosition :: "nat \<Rightarrow> int \<Rightarrow> int \<Rightarrow> ptz_state \<Rightarrow> ptz_state" where
  "SetPTZPosition ix pan tilt st =
     st\<lparr> cameras := (cameras st)[ix := (cameras st ! ix)\<lparr> ptzPan := pan, ptzTilt := tilt \<rparr>] \<rparr>"

text \<open>The errors of the camera client and of the PTZ service, one per \<open>fmt.Errorf\<close>.\<close>

datatype ptz_error =
    ProfileNotFound string
  | PTZNotSupported string
  | PanOutOfRange int
  | TiltOutOfRange int
  | SpeedOutOfRange int
  | CommandNotAllowed
  | MarshalCommandFailed
  | CreateCommandRequestFailed
  | SendCommandFailed string
  | UnexpectedStatus nat string
  | PresetNotFound string
  | MQTTPublishFailed string string
  | PanTiltPositionRequired
  | PanTiltTranslationRequired

text \<open>\<open>%d\<close> of \<open>fmt.Sprintf\<close>: the decimal text of an integer.\<close>

definition digit_char :: "nat \<Rightarrow> char" where
  "digit_char d = ''0123456789'' ! d"

fun digits :: "nat \<Rightarrow> string" where
  "digits n = (if n < 10 then [digit_char n] else digits (n div 10) @ [digit_char (n mod 10)])"

definition show_int :: "int \<Rightarrow> string" where
  "show_int i = (if i < 0 then ''-'' @ digits (nat (- i)) else digits (nat i))"

definition allowedPrefixes :: "string list" where
  "allowedPrefixes = [''move '', ''video '', ''property '', ''alarm '']"

definition HasPrefix :: "string \<Rightarrow> string \<Rightarrow> bool" where
  "HasPrefix s p = (take (length p) s = p)"

definition command_url :: "CameraConfig \<Rightarrow> string" where
  "command_url cfg =
     ''http://'' @ Host cfg @ '':'' @ show_int (HTTPPort cfg) @ ''/cgi-bin/cmd.cgi?port=socket''"

definition command_request :: "CameraConfig \<Rightarrow> string \<Rightarrow> http_request" where
  "command_request cfg payload =
     \<lparr> req_method = ''POST'', req_url = command_url cfg, req_body = payload \<rparr>"

definition SendCommand ::
  "net_lib \<Rightarrow> http_server \<Rightarrow> CameraConfig \<Rightarrow> http_request list \<Rightarrow> string
     \<Rightarrow> ptz_error option \<times> http_request list" where
  "SendCommand lib srv cfg hist command =
     (if \<not> (\<exists>p \<in> set allowedPrefixes. HasPrefix command p)
      then (Some CommandNotAllowed, hist)
      else
        (case json_Marshal_CommandRequest lib command of
           None \<Rightarrow> (Some MarshalCommandFailed, hist)
         | Some payload \<Rightarrow>
             if \<not> http_NewRequest_ok lib ''POST'' (command_url cfg)
             then (Some CreateCommandRequestFailed, hist)
             else
               (case http_Do srv hist (command_request cfg payload) of
                  (TransportError e, hist') \<Rightarrow> (Some (SendCommandFailed e), hist')
                | (HttpReply status bodyBytes, hist') \<Rightarrow>
                    if status \<noteq> 200
                    then (Some (UnexpectedStatus status (take (2 ^ 20) bodyBytes)), hist')
                    else (None, hist'))))"

definition move_command :: "int \<Rightarrow> int \<Rightarrow> int \<Rightarrow> string" where
  "move_command pan tilt speed =
     ''move '' @ show_int pan @ '' '' @ show_int tilt @ '' '' @ show_int speed"

definition PTZMove ::
  "net_lib \<Rightarrow> http_server \<Rightarrow> CameraConfig \<Rightarrow> http_request list \<Rightarrow> int \<Rightarrow> int \<Rightarrow> int
     \<Rightarrow> ptz_error option \<times> http_request list" where
  "PTZMove lib srv cfg hist pan tilt speed =
     (if pan < 0 \<or> pan > 355 then (Some (PanOutOfRange pan), hist)
      else if tilt < 0 \<or> tilt > 180 then (Some (TiltOutOfRange tilt), hist)
      else if speed < 1 \<or> speed > 9 then (Some (SpeedOutOfRange speed), hist)
      else SendCommand lib srv cfg hist (move_command pan tilt speed))"

definition PTZStop ::
  "net_lib \<Rightarrow> http_server \<Rightarrow> CameraConfig \<Rightarrow> http_request list
     \<Rightarrow> ptz_error option \<times> http_request list" where
  "PTZStop lib srv cfg hist = SendCommand lib srv cfg hist ''move 0 0 0''"

section \<open>PTZ service (package ptz, type Service)\<close>

text \<open>
  The operations follow the revision of the PTZ service that tracks the camera position
  and offers \<open>GotoHomePosition\<close>, \<open>GotoPreset\<close>, \<open>AbsoluteMove\<close> and \<open>RelativeMove\<close>:
  the one that the PTZ dispatch of server.go and \<open>Camera.SetPTZPosition\<close> belong to (in
  the sources it follows the coordinate transform in ptz/coordinate.go). An earlier
  revision of \<open>ContinuousMove\<close>, kept in ptz/service.go, compared the squared magnitude
  of the velocity with 0.01, converted the velocity with \<open>ONVIFToAtomCam\<close> and did not
  track the position.
\<close>

record Vector2D =
  Space :: string
  X :: real
  Y :: real

record Vector1D =
  ZoomSpace :: string
  ZoomX :: real

text \<open>
  \<open>PTZSpeed\<close> and \<open>PTZVector\<close> have the same two optional fields; a \<open>nil\<close> pointer is
  \<open>None\<close>.
\<close>

record PTZSpeed =
  PanTilt :: "Vector2D option"
  Zoom :: "Vector1D option"

type_synonym PTZVector = PTZSpeed

text \<open>The clamping of a position to a range, written in the source as two \<open>if\<close>s in a row.\<close>

definition clamp_int :: "int \<Rightarrow> int \<Rightarrow> int \<Rightarrow> int" where
  "clamp_int v lo hi = (let v1 = (if v < lo then lo else v) in if v1 > hi then hi else v1)"

text \<open>
  The last two statements of every operation that moves the camera: the tracked position
  is set, then the move command is sent and its result returned.
\<close>

definition set_position_then_move ::
  "net_lib \<Rightarrow> http_server \<Rightarrow> ptz_state \<Rightarrow> nat \<Rightarrow> int \<Rightarrow> int \<Rightarrow> int \<Rightarrow> ptz_error option \<times> ptz_state" where
  "set_position_then_move lib srv st ix pan tilt speed =
     (let st' = SetPTZPosition ix pan tilt st
      in case PTZMove lib srv (Config (cameras st' ! ix)) (wire st') pan tilt speed of
           (err, hist') \<Rightarrow> (err, st'\<lparr> wire := hist' \<rparr>))"

definition send_stop :: "net_lib \<Rightarrow> http_server \<Rightarrow> ptz_state \<Rightarrow> nat \<Rightarrow> ptz_error option \<times> ptz_state" where
  "send_stop lib srv st ix =
     (case PTZStop lib srv (Config (cameras st ! ix)) (wire st) of
        (err, hist') \<Rightarrow> (err, st\<lparr> wire := hist' \<rparr>))"

text \<open>The magnitude of the velocity vector as \<open>ContinuousMove\<close> computes it.\<close>

definition velocityMag :: "(real \<Rightarrow> real) \<Rightarrow> real \<Rightarrow> real \<Rightarrow> real" where
  "velocityMag fl velocityX velocityY =
     fl (sqrt (fl (fl (velocityX * velocityX) + fl (velocityY * velocityY))))"

definition ContinuousMove ::
  "net_lib \<Rightarrow> (real \<Rightarrow> real) \<Rightarrow> http_server \<Rightarrow> ptz_state \<Rightarrow> string \<Rightarrow> PTZSpeed
     \<Rightarrow> ptz_error option \<times> ptz_state" where
  "ContinuousMove lib fl srv st profileToken velocity =
     (case GetProfileByToken (cameras st) profileToken of
        None \<Rightarrow> (Some (ProfileNotFound profileToken), st)
      | Some profile \<Rightarrow>
          let ix = CameraIx profile; cfg = Config (cameras st ! ix)
          in if \<not> CapPTZ (Capabilities cfg) then (Some (PTZNotSupported (Name cfg)), st)
             else if Zoom velocity \<noteq> None \<and> PanTilt velocity = None then (None, st)
             else
               let velocityX = (case PanTilt velocity of Some v \<Rightarrow> X v | None \<Rightarrow> 0);
                   velocityY = (case PanTilt velocity of Some v \<Rightarrow> Y v | None \<Rightarrow> 0);
                   mag = velocityMag fl velocityX velocityY
               in if mag < fl 0.01 then send_stop lib srv st ix
                  else
                    let (currentPan, currentTilt) = GetPTZPosition st ix;
                        deltaPan = go_int (fl (velocityX * 5));
                        deltaTilt = go_int (fl (velocityY * 5));
                        newPan = clamp_int (currentPan + deltaPan) 0 355;
                        newTilt = clamp_int (currentTilt + deltaTilt) 0 180;
                        speed = clamp_int (go_int (math_Round (fl (mag * 4))) + 5) 5 9
                    in set_position_then_move lib srv st ix newPan newTilt speed)"

definition Stop ::
  "net_lib \<Rightarrow> http_server \<Rightarrow> ptz_state \<Rightarrow> string \<Rightarrow> ptz_error option \<times> ptz_state" where
  "Stop lib srv st profileToken =
     (case GetProfileByToken (cameras st) profileToken of
        None \<Rightarrow> (Some (ProfileNotFound profileToken), st)
      | Some profile \<Rightarrow>
          let ix = CameraIx profile; cfg = Config (cameras st ! ix)
          in if \<not> CapPTZ (Capabilities cfg) then (Some (PTZNotSupported (Name cfg)), st)
             else send_stop lib srv st ix)"

text \<open>
  The speed of \<open>GotoHomePosition\<close> and \<open>GotoPreset\<close>: 5 unless a speed vector with a
  squared length above 0.01 is given, then the average of its components scaled to 1..9.
\<close>

definition preset_speed :: "(real \<Rightarrow> real) \<Rightarrow> PTZSpeed option \<Rightarrow> int" where
  "preset_speed fl speed =
     (case speed of
        None \<Rightarrow> 5
      | Some sp \<Rightarrow>
          (case PanTilt sp of
             None \<Rightarrow> 5
           | Some v \<Rightarrow>
               let speedMag = fl (fl (X v * X v) + fl (Y v * Y v))
               in if speedMag > fl 0.01
                  then let avgSpeed = fl (fl (X v + Y v) / 2)
                       in clamp_int (go_int (fl (avgSpeed * 8)) + 1) 1 9
                  else 5))"

text \<open>
  The speed of \<open>AbsoluteMove\<close> and \<open>RelativeMove\<close>: 5 unless a speed vector longer than
  0.01 is given, then its length scaled to 5..9.
\<close>

definition move_speed :: "(real \<Rightarrow> real) \<Rightarrow> PTZSpeed option \<Rightarrow> int" where
  "move_speed fl speed =
     (case speed of
        None \<Rightarrow> 5
      | Some sp \<Rightarrow>
          (case PanTilt sp of
             None \<Rightarrow> 5
           | Some v \<Rightarrow>
               let speedMag = fl (sqrt (fl (fl (X v * X v) + fl (Y v * Y v))))
               in if speedMag > fl 0.01
                  then clamp_int (go_int (math_Round (fl (speedMag * 4))) + 5) 5 9
                  else 5))"

definition GotoHomePosition ::
  "net_lib \<Rightarrow> (real \<Rightarrow> real) \<Rightarrow> http_server \<Rightarrow> ptz_state \<Rightarrow> string \<Rightarrow> PTZSpeed option
     \<Rightarrow> ptz_error option \<times> ptz_state" where
  "GotoHomePosition lib fl srv st profileToken speed =
     (case GetProfileByToken (cameras st) profileToken of
        None \<Rightarrow> (Some (ProfileNotFound profileToken), st)
      | Some profile \<Rightarrow>
          let ix = CameraIx profile; cfg = Config (cameras st ! ix)
          in if \<not> CapPTZ (Capabilities cfg) then (Some (PTZNotSupported (Name cfg)), st)
             else
               let defaultSpeed = preset_speed fl speed;
                   (pan, tilt) = (case Home (PTZ cfg) of
                                    Some h \<Rightarrow> (Pan h, Tilt h)
                                  | None \<Rightarrow> (160, 130))
               in set_position_then_move lib srv st ix pan tilt defaultSpeed)"

text \<open>
  The preset whose token (or, for an empty token, its 1-based position in decimal)
  equals the requested token; \<open>i\<close> is the position of the head of the list.
\<close>

fun find_preset :: "nat \<Rightarrow> PTZPreset list \<Rightarrow> string \<Rightarrow> PTZPreset option" where
  "find_preset i [] presetToken = None"
| "find_preset i (p # ps) presetToken =
     (let token = (if Token p = [] then show_int (int i + 1) else Token p)
      in if token = presetToken then Some p else find_preset (Suc i) ps presetToken)"

definition GotoPreset ::
  "net_lib \<Rightarrow> (real \<Rightarrow> real) \<Rightarrow> http_server \<Rightarrow> ptz_state \<Rightarrow> string \<Rightarrow> string \<Rightarrow> PTZSpeed option
     \<Rightarrow> ptz_error option \<times> ptz_state" where
  "GotoPreset lib fl srv st profileToken presetToken speed =
     (case GetProfileByToken (cameras st) profileToken of
        None \<Rightarrow> (Some (ProfileNotFound profileToken), st)
      | Some profile \<Rightarrow>
          let ix = CameraIx profile; cfg = Config (cameras st ! ix)
          in if \<not> CapPTZ (Capabilities cfg) then (Some (PTZNotSupported (Name cfg)), st)
             else
               (case find_preset 0 (Presets (PTZ cfg)) presetToken of
                  None \<Rightarrow> (Some (PresetNotFound presetToken), st)
                | Some preset \<Rightarrow>
                    if MQTTBroker preset \<noteq> [] \<and> MQTTTopic preset \<noteq> []
                    then
                      (case mqtt_PublishMessage lib (MQTTBroker preset) (MQTTTopic preset)
                              (MQTTMessage preset) of
                         Some e \<Rightarrow> (Some (MQTTPublishFailed presetToken e), st)
                       | None \<Rightarrow> (None, st))
                    else
                      let defaultSpeed = preset_speed fl speed
                      in set_position_then_move lib srv st ix (Pan preset) (Tilt preset)
                           defaultSpeed))"

text \<open>
  The test for a position that was never set, and the position it is replaced by: the
  configured home position or the centre.
\<close>

definition uninitialized :: "int \<Rightarrow> int \<Rightarrow> bool" where
  "uninitialized currentPan currentTilt =
     (currentPan = - (2 ^ 63) \<or> currentTilt = - (2 ^ 63) \<or> currentPan < 0 \<or> currentTilt < 0)"

definition initial_position :: "CameraConfig \<Rightarrow> int \<times> int" where
  "initial_position cfg =
     (case Home (PTZ cfg) of Some h \<Rightarrow> (Pan h, Tilt h) | None \<Rightarrow> (177, 90))"

definition AbsoluteMove ::
  "net_lib \<Rightarrow> (real \<Rightarrow> real) \<Rightarrow> http_server \<Rightarrow> ptz_state \<Rightarrow> string \<Rightarrow> PTZVector \<Rightarrow> PTZSpeed option
     \<Rightarrow> ptz_error option \<times> ptz_state" where
  "AbsoluteMove lib fl srv st profileToken position speed =
     (case GetProfileByToken (cameras st) profileToken of
        None \<Rightarrow> (Some (ProfileNotFound profileToken), st)
      | Some profile \<Rightarrow>
          let ix = CameraIx profile; cfg = Config (cameras st ! ix)
          in if \<not> CapPTZ (Capabilities cfg) then (Some (PTZNotSupported (Name cfg)), st)
             else if Zoom position \<noteq> None \<and> PanTilt position = None then (None, st)
             else
               (case PanTilt position of
                  None \<Rightarrow> (Some PanTiltPositionRequired, st)
                | Some pt \<Rightarrow>
                    let x = X pt; y = Y pt;
                        (pan, tilt, st1) =
                          (if HorizontalFOV (PTZ cfg) > 0 \<and> VerticalFOV (PTZ cfg) > 0
                           then
                             let (currentPan0, currentTilt0) = GetPTZPosition st ix;
                                 (currentPan, currentTilt, st0) =
                                   (if uninitialized currentPan0 currentTilt0
                                    then (case initial_position cfg of
                                            (p, t) \<Rightarrow> (p, t, SetPTZPosition ix p t st))
                                    else (currentPan0, currentTilt0, st));
                                 halfHorizontalFOV = fl (HorizontalFOV (PTZ cfg) / 2);
                                 halfVerticalFOV = fl (VerticalFOV (PTZ cfg) / 2);
                                 deltaPan = go_int (math_Round (fl (x * halfHorizontalFOV)));
                                 deltaTilt = go_int (math_Round (fl (fl (1 - y) * halfVerticalFOV)))
                                               - go_int halfVerticalFOV
                             in (clamp_int (currentPan + deltaPan) 0 355,
                                 clamp_int (currentTilt + deltaTilt) 0 180, st0)
                           else
                             (case ONVIFToAtomCam fl x y 0.5 of
                                (p, t, s) \<Rightarrow> (p, t, st)));
                        defaultSpeed = move_speed fl speed
                    in set_position_then_move lib srv st1 ix pan tilt defaultSpeed))"

text \<open>
  \<open>RelativeMove\<close>. Its rejection of NaN translations has no counterpart here, because
  the coordinates of the model are real numbers.
\<close>

definition RelativeMove ::
  "net_lib \<Rightarrow> (real \<Rightarrow> real) \<Rightarrow> http_server \<Rightarrow> ptz_state \<Rightarrow> string \<Rightarrow> PTZVector \<Rightarrow> PTZSpeed option
     \<Rightarrow> ptz_error option \<times> ptz_state" where
  "RelativeMove lib fl srv st profileToken translation speed =
     (case GetProfileByToken (cameras st) profileToken of
        None \<Rightarrow> (Some (ProfileNotFound profileToken), st)
      | Some profile \<Rightarrow>
          let ix = CameraIx profile; cfg = Config (cameras st ! ix)
          in if \<not> CapPTZ (Capabilities cfg) then (Some (PTZNotSupported (Name cfg)), st)
             else if Zoom translation \<noteq> None \<and> PanTilt translation = None then (None, st)
             else
               (case PanTilt translation of
                  None \<Rightarrow> (Some PanTiltTranslationRequired, st)
                | Some tr \<Rightarrow>
                    let translationX = X tr; translationY = Y tr;
                        (currentPan0, currentTilt0) = GetPTZPosition st ix;
                        (currentPan, currentTilt, st0) =
                          (if uninitialized currentPan0 currentTilt0
                           then (case initial_position cfg of
                                   (p, t) \<Rightarrow> (p, t, SetPTZPosition ix p t st))
                           else (currentPan0, currentTilt0, st));
                        (pan, tilt) =
                          (if HorizontalFOV (PTZ cfg) > 0 \<and> VerticalFOV (PTZ cfg) > 0
                           then
                             let halfHorizontalFOV = fl (HorizontalFOV (PTZ cfg) / 2);
                                 halfVerticalFOV = fl (VerticalFOV (PTZ cfg) / 2);
                                 deltaPan = go_int (math_Round (fl (translationX * halfHorizontalFOV)));
                                 deltaTilt = go_int (math_Round (fl (- translationY * halfVerticalFOV)))
                             in (clamp_int (currentPan + deltaPan) 0 355,
                                 clamp_int (currentTilt + deltaTilt) 0 180)
                           else
                             (case AtomCamToONVIF fl currentPan currentTilt of
                                (currentX, currentY) \<Rightarrow>
                                  let newX = clamp (fl (currentX + translationX)) (- 1) 1;
                                      newY = clamp (fl (currentY + translationY)) (- 1) 1
                                  in (case ONVIFToAtomCam fl newX newY 0.5 of
                                        (p, t, s) \<Rightarrow> (p, t))));
                        defaultSpeed = move_speed fl speed
                    in set_position_then_move lib srv st0 ix pan tilt defaultSpeed))"

text \<open>
  Example: one PTZ camera with a single stream and two presets, the second with a pan
  outside the camera's range; a camera endpoint that accepts every command, and one that
  cannot be reached.
\<close>

definition example_camera_config :: CameraConfig where
  "example_camera_config =
     \<lparr> Name = ''cam1'', Host = ''192.168.1.10'', HTTPPort = 80,
       Capabilities = \<lparr> CapPTZ = True, CapIR = False \<rparr>,
       Streams = [\<lparr> Path = ''video0_unicast'', Resolution = ''1920x1080'', Codec = ''h264'',
                    ProfileName = ''cam1_main'', RTSPURL = [] \<rparr>],
       PTZ = \<lparr> Home = None,
               Presets = [\<lparr> PresetName = ''door'', Pan = 10, Tilt = 20, Token = ''1'',
                            MQTTBroker = [], MQTTTopic = [], MQTTMessage = [] \<rparr>,
                          \<lparr> PresetName = ''far'', Pan = 400, Tilt = 20, Token = [],
                            MQTTBroker = [], MQTTTopic = [], MQTTMessage = [] \<rparr>],
               HorizontalFOV = 0, VerticalFOV = 0 \<rparr> \<rparr>"

definition example_state :: ptz_state where
  "example_state = \<lparr> cameras = [NewCamera example_camera_config], wire = [] \<rparr>"

definition accepting_camera :: http_server where
  "accepting_camera hist req = HttpReply 200 []"

definition unreachable_camera :: http_server where
  "unreachable_camera hist req = TransportError ''connection refused''"

definition pan_tilt :: "real \<Rightarrow> real \<Rightarrow> PTZSpeed" where
  "pan_tilt x y = \<lparr> PanTilt = Some \<lparr> Space = [], X = x, Y = y \<rparr>, Zoom = None \<rparr>"

text \<open>
  The outcome of an operation is the outcome of a move command whose target is the
  position that is tracked for the camera after the operation: the result and the
  requests on the wire are those of \<open>PTZMove\<close> called with the tracked pan and tilt.
\<close>

definition tracked_is_commanded ::
  "net_lib \<Rightarrow> http_server \<Rightarrow> ptz_state \<Rightarrow> nat \<Rightarrow> int \<Rightarrow> ptz_error option \<times> ptz_state \<Rightarrow> bool" where
  "tracked_is_commanded lib srv st ix speed res =
     ((fst res, wire (snd res))
        = PTZMove lib srv (Config (cameras st ! ix)) (wire st)
            (ptzPan (cameras (snd res) ! ix)) (ptzTilt (cameras (snd res) ! ix)) speed)"

section \<open>SOAP faults and envelopes (internal/onvif/soap)\<close>

record Fault =
  CodeValue :: string
  Subcode :: "string option"
  ReasonText :: string
  Detail :: string

definition FaultCodeSender :: string where "FaultCodeSender = ''s:Sender''"
definition FaultCodeReceiver :: string where "FaultCodeReceiver = ''s:Receiver''"
definition SubcodeNotAuthorized :: string where "SubcodeNotAuthorized = ''ter:NotAuthorized''"
definition SubcodeInvalidArgVal :: string where "SubcodeInvalidArgVal = ''ter:InvalidArgVal''"
definition SubcodeActionFailed :: string where "SubcodeActionFailed = ''ter:Action/Failure''"

definition NewFault :: "string \<Rightarrow> string \<Rightarrow> string \<Rightarrow> Fault" where
  "NewFault code subcode reason =
     \<lparr> CodeValue = code, Subcode = (if subcode \<noteq> [] then Some subcode else None),
       ReasonText = reason, Detail = [] \<rparr>"

definition NewNotAuthorizedFault :: Fault where
  "NewNotAuthorizedFault =
     NewFault FaultCodeSender SubcodeNotAuthorized
       ''The action requested requires authorization and the sender is not authorized''"

definition NewInvalidArgsFault :: "string \<Rightarrow> Fault" where
  "NewInvalidArgsFault message =
     NewFault FaultCodeSender SubcodeInvalidArgVal
       (if message = [] then ''Invalid arguments'' else message)"

definition NewActionFailedFault :: "string \<Rightarrow> Fault" where
  "NewActionFailedFault message =
     NewFault FaultCodeReceiver SubcodeActionFailed
       (if message = [] then ''The requested action failed'' else message)"

text \<open>
  A token of \<open>xml.Decoder.Token\<close>: \<open>GetAction\<close> looks only at start elements and only at
  the local part of their name.
\<close>

datatype xml_token = StartElement string | OtherToken

text \<open>
  The SOAP envelope as the server reads it: an optional header with an optional Security
  block (server.go reads it as \<open>envelope.Header.Content\<close>; an absent or empty content is
  \<open>None\<close>), and the inner XML of the body.
\<close>

record Header =
  Content :: "Security option"

record Envelope =
  Header :: "Header option"
  BodyContent :: string

text \<open>
  Go's encoding/xml, as parameters: \<open>Decoder_tokens\<close> lists the tokens that successive calls
  of \<open>Token()\<close> return before the first call that returns an error (end of input or a
  syntax error); \<open>Unmarshal_Envelope\<close> is \<open>xml.Unmarshal\<close> into an \<open>Envelope\<close>;
  \<open>Unmarshal_request\<close> is \<open>xml.Unmarshal\<close> into the request struct of the named action.
  \<open>None\<close> is an error.
\<close>

record 'req xml_lib =
  Decoder_tokens :: "string \<Rightarrow> xml_token list"
  Unmarshal_Envelope :: "string \<Rightarrow> Envelope option"
  Unmarshal_request :: "string \<Rightarrow> string \<Rightarrow> 'req option"

text \<open>
  The loop of \<open>GetAction\<close> over the token stream: the first start element after a start
  element named \<open>Body\<close>; the error of \<open>Token()\<close> ends the loop with an error.
\<close>

fun GetAction_loop :: "bool \<Rightarrow> xml_token list \<Rightarrow> string option" where
  "GetAction_loop inBody [] = None"
| "GetAction_loop inBody (StartElement local # ts) =
     (if local = ''Body'' then GetAction_loop True ts
      else if inBody then Some local
      else GetAction_loop inBody ts)"
| "GetAction_loop inBody (OtherToken # ts) = GetAction_loop inBody ts"

definition GetAction :: "'req xml_lib \<Rightarrow> string \<Rightarrow> string option" where
  "GetAction lib body = GetAction_loop False (Decoder_tokens lib body)"

definition GetBodyContent :: "'req xml_lib \<Rightarrow> string \<Rightarrow> string option" where
  "GetBodyContent lib body = map_option BodyContent (Unmarshal_Envelope lib body)"

section \<open>SOAP gateway (internal/onvif/server.go)\<close>

text \<open>
  The body of an HTTP request is a stream that delivers \<open>body_bytes\<close> and then ends, with
  a read error when \<open>body_error\<close> holds and with end of input otherwise.
  \<open>io.ReadAll(io.LimitReader(r.Body, n))\<close> stops after \<open>n\<close> bytes with end of input of its
  own, so what lies behind byte \<open>n\<close>, an error included, is never read. \<open>None\<close> is the
  error of \<open>ReadAll\<close>.
\<close>

record body_stream =
  body_bytes :: string
  body_error :: bool

definition ReadAll_LimitReader :: "body_stream \<Rightarrow> nat \<Rightarrow> string option" where
  "ReadAll_LimitReader b n =
     (if n \<le> length (body_bytes b) then Some (take n (body_bytes b))
      else if body_error b then None
      else Some (body_bytes b))"

record Request =
  Method :: string
  URLPath :: string
  ReqBody :: body_stream

text \<open>
  What a handler writes: a plain HTTP error (\<open>http.Error\<close>, \<open>http.NotFound\<close>), or the
  fault given to \<open>sendFault\<close>, or the response given to \<open>sendResponse\<close> (\<open>None\<close> is the
  \<open>nil\<close> interface value). Marshalling the envelope is not modelled.
\<close>

datatype 'resp outcome =
    HttpError nat string
  | SendFault Fault
  | SendResponse "'resp option"

text \<open>
  The four services behind the gateway are parameters, indexed by the action name; each
  operation may change the state \<open>'svc\<close> of the services (cameras, tracked positions).
  \<open>nullary_op\<close>: operations without request data that cannot fail; \<open>total_op\<close>:
  operations on a decoded request that cannot fail; \<open>query_op\<close>: operations that return
  a response or an error text; \<open>command_op\<close>: operations that return only an error
  (\<open>None\<close> is \<open>nil\<close>), answered with \<open>EmptyResponse\<close> of the action.
\<close>

record ('svc, 'req, 'resp) service_ops =
  nullary_op :: "string \<Rightarrow> 'svc \<Rightarrow> 'resp \<times> 'svc"
  total_op :: "string \<Rightarrow> 'req \<Rightarrow> 'svc \<Rightarrow> 'resp \<times> 'svc"
  query_op :: "string \<Rightarrow> 'req \<Rightarrow> 'svc \<Rightarrow> (string + 'resp) \<times> 'svc"
  command_op :: "string \<Rightarrow> 'req \<Rightarrow> 'svc \<Rightarrow> string option \<times> 'svc"
  EmptyResponse :: "string \<Rightarrow> 'resp"

record AuthConfig =
  AuthUsername :: string
  AuthPassword :: string

record ('svc, 'req, 'resp) Server =
  xml :: "'req xml_lib"
  std :: std_lib
  auth :: AuthConfig
  ops :: "('svc, 'req, 'resp) service_ops"

text \<open>
  The mutable state a request can touch: the process-wide used-nonce map and the state of
  the services.
\<close>

record 'svc gateway_state =
  nonces :: "string \<rightharpoonup> time"
  services :: "'svc"

definition validateAuth ::
  "('svc, 'req, 'resp) Server \<Rightarrow> time \<times> time \<Rightarrow> (string \<rightharpoonup> time) \<Rightarrow> string
     \<Rightarrow> auth_error option \<times> (string \<rightharpoonup> time)" where
  "validateAuth s clock used body =
     (case Unmarshal_Envelope (xml s) body of
        None \<Rightarrow> (Some EnvelopeParseFailed, used)
      | Some envelope \<Rightarrow>
          (case Header envelope of
             None \<Rightarrow> (Some MissingSecurityHeader, used)
           | Some h \<Rightarrow>
               (case Content h of
                  None \<Rightarrow> (Some MissingSecurityHeader, used)
                | Some sec \<Rightarrow>
                    ValidateUsernameToken (std s) (fst clock) (snd clock) used (Some sec)
                      (AuthUsername (auth s)) (AuthPassword (auth s)))))"

text \<open>
  The Security block that a request body carries: none when the envelope does not parse,
  has no header, or the header has no Security content. A request has a valid WS-Security
  header when it carries a block that is a valid token for the configured credentials.
\<close>

definition security_block :: "'req xml_lib \<Rightarrow> string \<Rightarrow> Security option" where
  "security_block lib body =
     (case Unmarshal_Envelope lib body of
        None \<Rightarrow> None
      | Some envelope \<Rightarrow> (case Header envelope of None \<Rightarrow> None | Some h \<Rightarrow> Content h))"

definition valid_security_header ::
  "('svc, 'req, 'resp) Server \<Rightarrow> time \<times> time \<Rightarrow> (string \<rightharpoonup> time) \<Rightarrow> string \<Rightarrow> bool" where
  "valid_security_header s clock used body =
     (case security_block (xml s) body of
        None \<Rightarrow> False
      | Some sec \<Rightarrow>
          credentials_ok (std s) (snd clock) used sec (AuthUsername (auth s))
            (AuthPassword (auth s)))"

text \<open>The recurring pieces of the \<open>switch\<close> statements.\<close>

definition invalid_request :: "'resp outcome" where
  "invalid_request = SendFault (NewInvalidArgsFault ''Invalid request'')"

definition unknown_action :: "string \<Rightarrow> 'resp outcome" where
  "unknown_action action = SendFault (NewActionFailedFault (''Unknown action: '' @ action))"

text \<open>A request decoded from the inner XML of the body (Device, Media and PTZ).\<close>

definition decode_body_content :: "'req xml_lib \<Rightarrow> string \<Rightarrow> string \<Rightarrow> 'req option" where
  "decode_body_content lib action body =
     (case GetBodyContent lib body of
        None \<Rightarrow> None
      | Some bodyContent \<Rightarrow> Unmarshal_request lib action bodyContent)"

definition run_nullary ::
  "('svc, 'req, 'resp) Server \<Rightarrow> string \<Rightarrow> 'svc \<Rightarrow> 'resp outcome \<times> 'svc" where
  "run_nullary s action svc =
     (case nullary_op (ops s) action svc of (response, svc') \<Rightarrow> (SendResponse (Some response), svc'))"

definition run_total ::
  "('svc, 'req, 'resp) Server \<Rightarrow> string \<Rightarrow> 'req option \<Rightarrow> 'svc \<Rightarrow> 'resp outcome \<times> 'svc" where
  "run_total s action decoded svc =
     (case decoded of
        None \<Rightarrow> (invalid_request, svc)
      | Some req \<Rightarrow>
          (case total_op (ops s) action req svc of
             (response, svc') \<Rightarrow> (SendResponse (Some response), svc')))"

text \<open>
  An operation with a response and an error; \<open>mkfault\<close> is the fault constructor the
  caller applies to the error text (\<open>NewInvalidArgsFault\<close> in Media, \<open>NewActionFailedFault\<close>
  in PTZ).
\<close>

definition run_query ::
  "('svc, 'req, 'resp) Server \<Rightarrow> (string \<Rightarrow> Fault) \<Rightarrow> string \<Rightarrow> 'req option \<Rightarrow> 'svc
     \<Rightarrow> 'resp outcome \<times> 'svc" where
  "run_query s mkfault action decoded svc =
     (case decoded of
        None \<Rightarrow> (invalid_request, svc)
      | Some req \<Rightarrow>
          (case query_op (ops s) action req svc of
             (Inl err, svc') \<Rightarrow> (SendFault (mkfault err), svc')
           | (Inr response, svc') \<Rightarrow> (SendResponse (Some response), svc')))"

definition run_command ::
  "('svc, 'req, 'resp) Server \<Rightarrow> string \<Rightarrow> 'req option \<Rightarrow> 'svc \<Rightarrow> 'resp outcome \<times> 'svc" where
  "run_command s action decoded svc =
     (case decoded of
        None \<Rightarrow> (invalid_request, svc)
      | Some req \<Rightarrow>
          (case command_op (ops s) action req svc of
             (Some err, svc') \<Rightarrow> (SendFault (NewActionFailedFault err), svc')
           | (None, svc') \<Rightarrow> (SendResponse (Some (EmptyResponse (ops s) action)), svc')))"

text \<open>
  The \<open>switch\<close> of each service. \<open>dflt\<close> is what happens when no case matches: the
  unknown-action fault in the four endpoint handlers, \<open>sendResponse\<close> of the \<open>nil\<close>
  response in the \<open>routeTo...\<close> functions of the root handler.
\<close>

definition device_switch ::
  "('svc, 'req, 'resp) Server \<Rightarrow> string \<Rightarrow> string \<Rightarrow> 'resp outcome \<Rightarrow> 'svc
     \<Rightarrow> 'resp outcome \<times> 'svc" where
  "device_switch s body action dflt svc =
     (if action = ''GetDeviceInformation'' then run_nullary s action svc
      else if action = ''GetSystemDateAndTime'' then run_nullary s action svc
      else if action = ''GetCapabilities''
        then run_total s action (decode_body_content (xml s) action body) svc
      else (dflt, svc))"

definition media_switch ::
  "('svc, 'req, 'resp) Server \<Rightarrow> string \<Rightarrow> string \<Rightarrow> 'resp outcome \<Rightarrow> 'svc
     \<Rightarrow> 'resp outcome \<times> 'svc" where
  "media_switch s body action dflt svc =
     (if action = ''GetProfiles'' then run_nullary s action svc
      else if action = ''GetStreamUri'' \<or> action = ''GetSnapshotUri''
        then run_query s NewInvalidArgsFault action (decode_body_content (xml s) action body) svc
      else (dflt, svc))"

definition ptz_switch ::
  "('svc, 'req, 'resp) Server \<Rightarrow> string \<Rightarrow> string \<Rightarrow> 'resp outcome \<Rightarrow> 'svc
     \<Rightarrow> 'resp outcome \<times> 'svc" where
  "ptz_switch s body action dflt svc =
     (if action = ''GetNodes'' \<or> action = ''GetConfigurations'' then run_nullary s action svc
      else if action \<in> set [''ContinuousMove'', ''Stop'', ''GotoHomePosition'', ''GotoPreset'',
                               ''AbsoluteMove'', ''RelativeMove'']
        then run_command s action (decode_body_content (xml s) action body) svc
      else if action = ''GetPresets''
        then run_query s NewActionFailedFault action (decode_body_content (xml s) action body) svc
      else (dflt, svc))"

definition imaging_switch ::
  "('svc, 'req, 'resp) Server \<Rightarrow> string \<Rightarrow> string \<Rightarrow> 'resp outcome \<Rightarrow> 'svc
     \<Rightarrow> 'resp outcome \<times> 'svc" where
  "imaging_switch s body action dflt svc =
     (if action = ''GetImagingSettings'' \<or> action = ''GetOptions''
        then run_total s action (Unmarshal_request (xml s) action body) svc
      else if action = ''SetImagingSettings''
        then run_command s action (Unmarshal_request (xml s) action body) svc
      else (dflt, svc))"

text \<open>
  Authentication followed by the \<open>switch\<close>: a failed validation sends the Not-Authorized
  fault and returns; the used-nonce map keeps what the validation stored. \<open>exempt\<close> says
  whether the action skips authentication.
\<close>

definition authenticate_then ::
  "('svc, 'req, 'resp) Server \<Rightarrow> time \<times> time \<Rightarrow> 'svc gateway_state \<Rightarrow> string \<Rightarrow> bool
     \<Rightarrow> ('svc \<Rightarrow> 'resp outcome \<times> 'svc) \<Rightarrow> 'resp outcome \<times> 'svc gateway_state" where
  "authenticate_then s clock st body exempt dispatch =
     (case (if exempt then (None, nonces st) else validateAuth s clock (nonces st) body) of
        (Some err, used') \<Rightarrow> (SendFault NewNotAuthorizedFault, st\<lparr> nonces := used' \<rparr>)
      | (None, used') \<Rightarrow>
          (case dispatch (services st) of
             (out, svc') \<Rightarrow> (out, \<lparr> nonces = used', services = svc' \<rparr>)))"

definition routeToDeviceService ::
  "('svc, 'req, 'resp) Server \<Rightarrow> time \<times> time \<Rightarrow> 'svc gateway_state \<Rightarrow> string \<Rightarrow> string
     \<Rightarrow> 'resp outcome \<Rightarrow> 'resp outcome \<times> 'svc gateway_state" where
  "routeToDeviceService s clock st body action dflt =
     authenticate_then s clock st body (action = ''GetSystemDateAndTime'')
       (device_switch s body action dflt)"

definition routeToMediaService ::
  "('svc, 'req, 'resp) Server \<Rightarrow> time \<times> time \<Rightarrow> 'svc gateway_state \<Rightarrow> string \<Rightarrow> string
     \<Rightarrow> 'resp outcome \<Rightarrow> 'resp outcome \<times> 'svc gateway_state" where
  "routeToMediaService s clock st body action dflt =
     authenticate_then s clock st body False (media_switch s body action dflt)"

definition routeToPTZService ::
  "('svc, 'req, 'resp) Server \<Rightarrow> time \<times> time \<Rightarrow> 'svc gateway_state \<Rightarrow> string \<Rightarrow> string
     \<Rightarrow> 'resp outcome \<Rightarrow> 'resp outcome \<times> 'svc gateway_state" where
  "routeToPTZService s clock st body action dflt =
     authenticate_then s clock st body False (ptz_switch s body action dflt)"

definition routeToImagingService ::
  "('svc, 'req, 'resp) Server \<Rightarrow> time \<times> time \<Rightarrow> 'svc gateway_state \<Rightarrow> string \<Rightarrow> string
     \<Rightarrow> 'resp outcome \<Rightarrow> 'resp outcome \<times> 'svc gateway_state" where
  "routeToImagingService s clock st body action dflt =
     authenticate_then s clock st body False (imaging_switch s body action dflt)"

text \<open>
  The common head of the five handlers: only POST, the body read under the 1 MiB limit,
  the action extracted; \<open>k\<close> is the rest of the handler.
\<close>

definition read_request ::
  "('svc, 'req, 'resp) Server \<Rightarrow> 'svc gateway_state \<Rightarrow> Request
     \<Rightarrow> (string \<Rightarrow> string \<Rightarrow> 'resp outcome \<times> 'svc gateway_state)
     \<Rightarrow> 'resp outcome \<times> 'svc gateway_state" where
  "read_request s st r k =
     (case ReadAll_LimitReader (ReqBody r) (2 ^ 20) of
        None \<Rightarrow> (SendFault (NewActionFailedFault ''Failed to read request body''), st)
      | Some body \<Rightarrow>
          (case GetAction (xml s) body of
             None \<Rightarrow> (SendFault (NewActionFailedFault ''Failed to parse SOAP action''), st)
           | Some action \<Rightarrow> k body action))"

definition handleDeviceService ::
  "('svc, 'req, 'resp) Server \<Rightarrow> time \<times> time \<Rightarrow> 'svc gateway_state \<Rightarrow> Request
     \<Rightarrow> 'resp outcome \<times> 'svc gateway_state" where
  "handleDeviceService s clock st r =
     (if Method r \<noteq> ''POST'' then (HttpError 405 ''Method not allowed'', st)
      else read_request s st r
             (\<lambda>body action. routeToDeviceService s clock st body action (unknown_action action)))"




definition device_actions :: "string list" where
  "device_actions = [''GetDeviceInformation'', ''GetSystemDateAndTime'', ''GetCapabilities'']"

definition media_actions :: "string list" where
  "media_actions = [''GetProfiles'', ''GetStreamUri'', ''GetSnapshotUri'']"

definition ptz_actions :: "string list" where
  "ptz_actions = [''GetNodes'', ''GetConfigurations'', ''ContinuousMove'', ''Stop'',
                  ''GotoHomePosition'', ''GetPresets'', ''GotoPreset'', ''AbsoluteMove'',
                  ''RelativeMove'']"

definition imaging_actions :: "string list" where
  "imaging_actions = [''GetImagingSettings'', ''SetImagingSettings'', ''GetOptions'']"

definition handleRootService ::
  "('svc, 'req, 'resp) Server \<Rightarrow> time \<times> time \<Rightarrow> 'svc gateway_state \<Rightarrow> Request
     \<Rightarrow> 'resp outcome \<times> 'svc gateway_state" where
  "handleRootService s clock st r =
     (if Method r \<noteq> ''POST'' then (HttpError 405 ''Method not allowed'', st)
      else if URLPath r \<noteq> ''/'' then (HttpError 404 ''404 page not found'', st)
      else read_request s st r
             (\<lambda>body action.
                if action \<in> set device_actions
                  then routeToDeviceService s clock st body action (SendResponse None)
                else if action \<in> set media_actions
                  then routeToMediaService s clock st body action (SendResponse None)
                else if action \<in> set ptz_actions
                  then routeToPTZService s clock st body action (SendResponse None)
                else if action \<in> set imaging_actions
                  then routeToImagingService s clock st body action (SendResponse None)
                else (unknown_action action, st)))"



text \<open>
  Example values. A small tokenizer for the tag structure of an XML text stands in for
  the decoder on concrete inputs: a start tag yields its local name (the text after the
  prefix and before the attributes), every other tag yields another token, a
  self-closing tag yields both, character data is skipped, and an unterminated tag ends
  the stream. The gateway definitions above do not depend on it.
\<close>

definition local_part :: "string \<Rightarrow> string" where
  "local_part name =
     (if CHR '':'' \<in> set name then tl (dropWhile (\<lambda>c. c \<noteq> CHR '':'') name) else name)"

definition tag_tokens :: "string \<Rightarrow> xml_token list" where
  "tag_tokens text =
     (if text = [] \<or> hd text = CHR ''/'' \<or> hd text = CHR ''?'' \<or> hd text = CHR ''!''
      then [OtherToken]
      else
        let name = takeWhile (\<lambda>c. c \<noteq> CHR '' '' \<and> c \<noteq> CHR ''/'') text
        in if last text = CHR ''/'' then [StartElement (local_part name), OtherToken]
           else [StartElement (local_part name)])"

fun scan_tags :: "string option \<Rightarrow> string \<Rightarrow> xml_token list" where
  "scan_tags None [] = []"
| "scan_tags None (c # cs) =
     (if c = CHR ''<'' then scan_tags (Some []) cs else scan_tags None cs)"
| "scan_tags (Some acc) [] = []"
| "scan_tags (Some acc) (c # cs) =
     (if c = CHR ''>'' then tag_tokens (rev acc) @ scan_tags None cs
      else scan_tags (Some (c # acc)) cs)"

definition soap_envelope :: "string \<Rightarrow> string" where
  \<open>soap_envelope inner =
     ''<s:Envelope xmlns:s="http://www.w3.org/2003/05/soap-envelope"><s:Body>'' @ inner
       @ ''</s:Body></s:Envelope>''\<close>

definition time_query :: string where
  \<open>time_query =
     ''<tds:GetSystemDateAndTime xmlns:tds="http://www.onvif.org/ver10/device/wsdl"/>''\<close>

definition info_query :: string where
  \<open>info_query =
     ''<tds:GetDeviceInformation xmlns:tds="http://www.onvif.org/ver10/device/wsdl"/>''\<close>

text \<open>
  An envelope whose header carries a UsernameToken with a password without Type
  attribute, and the Security block it decodes to.
\<close>

definition secured_envelope :: "string \<Rightarrow> string \<Rightarrow> string \<Rightarrow> string" where
  \<open>secured_envelope user pass inner =
     ''<s:Envelope xmlns:s="http://www.w3.org/2003/05/soap-envelope"><s:Header>''
       @ ''<wsse:Security xmlns:wsse="http://docs.oasis-open.org/wss/2004/01/oasis-200401-wss-wssecurity-secext-1.0.xsd">''
       @ ''<wsse:UsernameToken><wsse:Username>'' @ user @ ''</wsse:Username><wsse:Password>''
       @ pass @ ''</wsse:Password></wsse:UsernameToken></wsse:Security></s:Header><s:Body>''
       @ inner @ ''</s:Body></s:Envelope>''\<close>

definition plain_token :: "string \<Rightarrow> string \<Rightarrow> Security" where
  "plain_token user pass =
     \<lparr> UsernameToken =
         \<lparr> Username = user, Password = \<lparr> Type = [], Value = pass \<rparr>,
           Nonce = [], Created = [] \<rparr> \<rparr>"

text \<open>
  \<open>example_xml\<close> decodes the two envelopes without header and two device-information
  requests with a header, one with the password \<open>secret\<close> and one with the password
  \<open>guess\<close>; it decodes no request struct.
\<close>

definition example_xml :: "unit xml_lib" where
  "example_xml =
     \<lparr> Decoder_tokens = scan_tags None,
       Unmarshal_Envelope =
         (\<lambda>b. if b = soap_envelope time_query
                 then Some \<lparr> Header = None, BodyContent = time_query \<rparr>
               else if b = soap_envelope info_query
                 then Some \<lparr> Header = None, BodyContent = info_query \<rparr>
               else if b = secured_envelope ''admin'' ''secret'' info_query
                 then Some \<lparr> Header = Some \<lparr> Content = Some (plain_token ''admin'' ''secret'') \<rparr>,
                             BodyContent = info_query \<rparr>
               else if b = secured_envelope ''admin'' ''guess'' info_query
                 then Some \<lparr> Header = Some \<lparr> Content = Some (plain_token ''admin'' ''guess'') \<rparr>,
                             BodyContent = info_query \<rparr>
               else None),
       Unmarshal_request = (\<lambda>action b. None) \<rparr>"

text \<open>
  Example services: the state is the list of the operations invoked so far, a response is
  the name of the action followed by \<open>Response\<close>.
\<close>

definition example_ops :: "(string list, unit, string) service_ops" where
  "example_ops =
     \<lparr> nullary_op = (\<lambda>action svc. (action @ ''Response'', svc @ [action])),
       total_op = (\<lambda>action req svc. (action @ ''Response'', svc @ [action])),
       query_op = (\<lambda>action req svc. (Inr (action @ ''Response''), svc @ [action])),
       command_op = (\<lambda>action req svc. (None, svc @ [action])),
       EmptyResponse = (\<lambda>action. action @ ''Response'') \<rparr>"

definition example_server :: "(string list, unit, string) Server" where
  "example_server =
     \<lparr> xml = example_xml, std = example_lib,
       auth = \<lparr> AuthUsername = ''admin'', AuthPassword = ''secret'' \<rparr>,
       ops = example_ops \<rparr>"

definition fresh_gateway :: "string list gateway_state" where
  "fresh_gateway = \<lparr> nonces = Map.empty, services = [] \<rparr>"

definition post :: "string \<Rightarrow> string \<Rightarrow> Request" where
  "post path content =
     \<lparr> Method = ''POST'', URLPath = path,
       ReqBody = \<lparr> body_bytes = content, body_error = False \<rparr> \<rparr>"


text \<open>The actions the root handler routes to one of the four services.\<close>

definition known_actions :: "string list" where
  "known_actions = device_actions @ media_actions @ ptz_actions @ imaging_actions"

section \<open>Properties of the WS-Security validator\<close>

lemmas auth_defs = ValidateUsernameToken_def digest_checks_def LoadOrStore_def
  ConstantTimeCompare_def Let_def

lemmas example_defs = digest_token_def example_lib_def example_created_def example_nonce_def
  example_digest_def example_sha1_def minute_def nonceTTL_def PasswordDigest_URI_def
  PasswordText_URI_def

lemma PasswordDigest_URI_nonempty: "PasswordDigest_URI \<noteq> []"
  by (simp add: PasswordDigest_URI_def)

lemma replay_rejected:
  assumes "Type (Password (UsernameToken sec)) = PasswordDigest_URI"
    and "Username (UsernameToken sec) = eu"
    and "Nonce (UsernameToken sec) \<noteq> []"
    and "Created (UsernameToken sec) \<noteq> []"
    and "used (Nonce (UsernameToken sec)) \<noteq> None"
  shows "ValidateUsernameToken lib t1 t2 used (Some sec) eu ep = (Some NonceAlreadyUsed, used)"
  using assms PasswordDigest_URI_nonempty
  by (auto simp: auth_defs split: option.splits)

lemma recorded_never_accepted:
  assumes "Type (Password (UsernameToken sec)) = PasswordDigest_URI"
    and "used (Nonce (UsernameToken sec)) \<noteq> None"
  shows "fst (ValidateUsernameToken lib t1 t2 used (Some sec) eu ep) \<noteq> None"
  using assms PasswordDigest_URI_nonempty
  by (auto simp: auth_defs split: option.splits)

lemma accepted_digest_fresh:
  assumes "Type (Password (UsernameToken sec)) = PasswordDigest_URI"
    and "ValidateUsernameToken lib t1 t2 used (Some sec) eu ep = (None, used')"
  shows "used (Nonce (UsernameToken sec)) = None
     \<and> used' = used(Nonce (UsernameToken sec) \<mapsto> t1)
     \<and> Username (UsernameToken sec) = eu
     \<and> Nonce (UsernameToken sec) \<noteq> [] \<and> Created (UsernameToken sec) \<noteq> []"
  using assms PasswordDigest_URI_nonempty
  by (auto simp: auth_defs split: option.splits if_splits)

lemma validate_keeps_nonces:
  "ValidateUsernameToken lib t1 t2 used s eu ep = (r, used') \<Longrightarrow> used n \<noteq> None \<Longrightarrow> used' n \<noteq> None"
  by (auto simp: auth_defs split: option.splits if_splits)

lemma accepted_with_recorded:
  "used n \<noteq> None \<Longrightarrow> accepted_with n reqs (fst (validate_all lib eu ep used reqs)) = 0"
proof (induction reqs arbitrary: used)
  case Nil
  then show ?case by simp
next
  case (Cons q reqs)
  obtain t1 t2 sec where q: "q = (t1, t2, sec)" by (cases q)
  obtain r used' where v: "ValidateUsernameToken lib t1 t2 used (Some sec) eu ep = (r, used')"
    by (cases "ValidateUsernameToken lib t1 t2 used (Some sec) eu ep")
  have keep: "used' n \<noteq> None" using validate_keeps_nonces[OF v Cons.prems] .
  have head: "\<not> (r = None \<and> Type (Password (UsernameToken sec)) = PasswordDigest_URI
      \<and> Nonce (UsernameToken sec) = n)"
    using recorded_never_accepted[of sec used lib t1 t2 eu ep] Cons.prems v by auto
  show ?case using Cons.IH[of used'] keep head
    by (auto simp: q v split: prod.splits)
qed

lemma accepted_with_le_1:
  "accepted_with n reqs (fst (validate_all lib eu ep used reqs)) \<le> 1"
proof (induction reqs arbitrary: used)
  case Nil
  then show ?case by simp
next
  case (Cons q reqs)
  obtain t1 t2 sec where q: "q = (t1, t2, sec)" by (cases q)
  obtain r used' where v: "ValidateUsernameToken lib t1 t2 used (Some sec) eu ep = (r, used')"
    by (cases "ValidateUsernameToken lib t1 t2 used (Some sec) eu ep")
  show ?case
  proof (cases "r = None \<and> Type (Password (UsernameToken sec)) = PasswordDigest_URI
      \<and> Nonce (UsernameToken sec) = n")
    case True
    then have "used' n \<noteq> None" using accepted_digest_fresh[of sec lib t1 t2 used eu ep used'] v by auto
    then have "accepted_with n reqs (fst (validate_all lib eu ep used' reqs)) = 0"
      by (rule accepted_with_recorded)
    with True show ?thesis
      by (auto simp: q v split: prod.splits)
  next
    case False
    then show ?thesis using Cons.IH[of used']
      by (auto simp: q v split: prod.splits)
  qed
qed

text \<open>
  Claim C1. In digest mode a nonce is accepted at most once while it stays recorded.
  (1) A digest-mode token whose nonce is already in the used-nonce map is never accepted,
  and when it reaches the nonce check (the username matches, nonce and created are
  present) the result is the replay error and the map is unchanged, whatever password
  digest it carries. (2) Whenever a digest-mode validation is accepted, its nonce was not
  recorded before, it is recorded with the instant of the call, and validating the
  identical token again (at any later instants) fails with the replay error. (3) In every
  sequence of validations, from every initial map, at most one accepted digest-mode
  validation presents a given nonce.
\<close>

theorem nonce_accepted_at_most_once:
  "(Type (Password (UsernameToken sec)) = PasswordDigest_URI
      \<and> used (Nonce (UsernameToken sec)) \<noteq> None
    \<longrightarrow> fst (ValidateUsernameToken lib ta tb used (Some sec) eu ep) \<noteq> None
        \<and> (Username (UsernameToken sec) = eu \<and> Nonce (UsernameToken sec) \<noteq> []
             \<and> Created (UsernameToken sec) \<noteq> []
           \<longrightarrow> ValidateUsernameToken lib ta tb used (Some sec) eu ep
                 = (Some NonceAlreadyUsed, used)))
   \<and> (Type (Password (UsernameToken sec)) = PasswordDigest_URI
      \<and> ValidateUsernameToken lib ta tb fresh (Some sec) eu ep = (None, used')
    \<longrightarrow> fresh (Nonce (UsernameToken sec)) = None
        \<and> used' = fresh(Nonce (UsernameToken sec) \<mapsto> ta)
        \<and> ValidateUsernameToken lib tc td used' (Some sec) eu ep
            = (Some NonceAlreadyUsed, used'))
   \<and> accepted_with n reqs (fst (validate_all lib eu ep store reqs)) \<le> 1"
proof (intro conjI impI)
  assume a: "Type (Password (UsernameToken sec)) = PasswordDigest_URI
      \<and> used (Nonce (UsernameToken sec)) \<noteq> None"
  then show "fst (ValidateUsernameToken lib ta tb used (Some sec) eu ep) \<noteq> None"
    using recorded_never_accepted by blast
  assume "Username (UsernameToken sec) = eu \<and> Nonce (UsernameToken sec) \<noteq> []
             \<and> Created (UsernameToken sec) \<noteq> []"
  with a show "ValidateUsernameToken lib ta tb used (Some sec) eu ep = (Some NonceAlreadyUsed, used)"
    using replay_rejected by blast
next
  assume b: "Type (Password (UsernameToken sec)) = PasswordDigest_URI
      \<and> ValidateUsernameToken lib ta tb fresh (Some sec) eu ep = (None, used')"
  then have f: "fresh (Nonce (UsernameToken sec)) = None
     \<and> used' = fresh(Nonce (UsernameToken sec) \<mapsto> ta)
     \<and> Username (UsernameToken sec) = eu
     \<and> Nonce (UsernameToken sec) \<noteq> [] \<and> Created (UsernameToken sec) \<noteq> []"
    using accepted_digest_fresh by blast
  then show "fresh (Nonce (UsernameToken sec)) = None" by blast
  from f show "used' = fresh(Nonce (UsernameToken sec) \<mapsto> ta)" by blast
  from f have "used' (Nonce (UsernameToken sec)) \<noteq> None" by simp
  with b f show "ValidateUsernameToken lib tc td used' (Some sec) eu ep
            = (Some NonceAlreadyUsed, used')"
    using replay_rejected by blast
next
  show "accepted_with n reqs (fst (validate_all lib eu ep store reqs)) \<le> 1"
    by (rule accepted_with_le_1)
qed

theorem nonce_accepted_at_most_once_witness:
  "Type (Password (UsernameToken (digest_token ''admin'' example_digest example_nonce example_created)))
     = PasswordDigest_URI
   \<and> [example_nonce \<mapsto> 1704067201000000000]
        (Nonce (UsernameToken (digest_token ''admin'' example_digest example_nonce example_created)))
      \<noteq> None
   \<and> ValidateUsernameToken example_lib 1704067201000000000 1704067201000000005 Map.empty
        (Some (digest_token ''admin'' example_digest example_nonce example_created))
        ''admin'' ''secret''
      = (None, [example_nonce \<mapsto> 1704067201000000000])
   \<and> ValidateUsernameToken example_lib 1704067202000000000 1704067202000000005
        [example_nonce \<mapsto> 1704067201000000000]
        (Some (digest_token ''admin'' example_digest example_nonce example_created))
        ''admin'' ''secret''
      = (Some NonceAlreadyUsed, [example_nonce \<mapsto> 1704067201000000000])
   \<and> accepted_with example_nonce
        [(1704067201000000000, 1704067201000000005,
          digest_token ''admin'' example_digest example_nonce example_created),
         (1704067202000000000, 1704067202000000005,
          digest_token ''admin'' example_digest example_nonce example_created)]
        (fst (validate_all example_lib ''admin'' ''secret'' Map.empty
          [(1704067201000000000, 1704067201000000005,
            digest_token ''admin'' example_digest example_nonce example_created),
           (1704067202000000000, 1704067202000000005,
            digest_token ''admin'' example_digest example_nonce example_created)]))
      \<le> 1"
proof -
  have first: "ValidateUsernameToken example_lib 1704067201000000000 1704067201000000005 Map.empty
        (Some (digest_token ''admin'' example_digest example_nonce example_created))
        ''admin'' ''secret''
      = (None, [example_nonce \<mapsto> 1704067201000000000])"
    by (simp add: auth_defs example_defs)
  have dig: "Type (Password (UsernameToken (digest_token ''admin'' example_digest example_nonce example_created)))
     = PasswordDigest_URI"
    by (simp add: digest_token_def)
  show ?thesis
    using first dig
      nonce_accepted_at_most_once
        [where sec = "digest_token ''admin'' example_digest example_nonce example_created"
           and used = "[example_nonce \<mapsto> 1704067201000000000]"
           and lib = example_lib and eu = "''admin''" and ep = "''secret''"
           and ta = 1704067201000000000 and tb = 1704067201000000005
           and tc = 1704067202000000000 and td = 1704067202000000005
           and fresh = Map.empty and used' = "[example_nonce \<mapsto> 1704067201000000000]"
           and n = example_nonce and store = Map.empty
           and reqs = "[(1704067201000000000, 1704067201000000005,
                digest_token ''admin'' example_digest example_nonce example_created),
              (1704067202000000000, 1704067202000000005,
                digest_token ''admin'' example_digest example_nonce example_created)]"]
    by (simp add: digest_token_def example_nonce_def)
qed


text \<open>
  Claim C4, as stated, fails: a token whose password Type is the WS-Security PasswordText
  URI and whose username and password equal the configured credentials is rejected as an
  unsupported password type.
\<close>

theorem passwordtext_uri_counterexample:
  "ValidateUsernameToken example_lib 1704067201000000000 1704067201000000005 Map.empty
     (Some \<lparr> UsernameToken =
         \<lparr> Username = ''admin'', Password = \<lparr> Type = PasswordText_URI, Value = ''secret'' \<rparr>,
           Nonce = [], Created = [] \<rparr> \<rparr>)
     ''admin'' ''secret''
   = (Some (UnsupportedPasswordType PasswordText_URI), Map.empty)"
  by (simp add: auth_defs PasswordText_URI_def PasswordDigest_URI_def)

text \<open>
  Claim C4, amended. Plaintext mode is selected by an empty (absent) Type attribute: with
  an empty Type and the configured username, validation succeeds exactly when the password
  equals the configured password, and the used-nonce map is untouched. With the configured
  username, the token is rejected as an unsupported password type exactly when its Type is
  neither empty nor the PasswordDigest URI; in particular the PasswordText URI is rejected
  as unsupported.
\<close>

theorem plaintext_mode_is_empty_type:
  "(Type (Password (UsernameToken sec)) = [] \<and> Username (UsernameToken sec) = eu
    \<longrightarrow> (ValidateUsernameToken lib ta tb used (Some sec) eu ep = (None, used))
          = (Value (Password (UsernameToken sec)) = ep))
   \<and> (Username (UsernameToken sec) = eu
    \<longrightarrow> (\<exists>ty. fst (ValidateUsernameToken lib ta tb used (Some sec) eu ep)
                = Some (UnsupportedPasswordType ty))
          = (Type (Password (UsernameToken sec)) \<noteq> []
             \<and> Type (Password (UsernameToken sec)) \<noteq> PasswordDigest_URI))
   \<and> (Username (UsernameToken sec) = eu \<and> Type (Password (UsernameToken sec)) = PasswordText_URI
    \<longrightarrow> ValidateUsernameToken lib ta tb used (Some sec) eu ep
          = (Some (UnsupportedPasswordType PasswordText_URI), used))"
proof (intro conjI impI)
  assume "Type (Password (UsernameToken sec)) = [] \<and> Username (UsernameToken sec) = eu"
  then show "(ValidateUsernameToken lib ta tb used (Some sec) eu ep = (None, used))
          = (Value (Password (UsernameToken sec)) = ep)"
    by (auto simp: ValidateUsernameToken_def ConstantTimeCompare_def Let_def)
next
  assume u: "Username (UsernameToken sec) = eu"
  have nounsup: "\<And>p n c ty. fst (digest_checks lib ta tb used p n c ep) \<noteq> Some (UnsupportedPasswordType ty)"
    by (auto simp: digest_checks_def LoadOrStore_def Let_def split: option.splits prod.splits)
  from u show "(\<exists>ty. fst (ValidateUsernameToken lib ta tb used (Some sec) eu ep)
                = Some (UnsupportedPasswordType ty))
          = (Type (Password (UsernameToken sec)) \<noteq> []
             \<and> Type (Password (UsernameToken sec)) \<noteq> PasswordDigest_URI)"
    using nounsup
    by (auto simp: ValidateUsernameToken_def ConstantTimeCompare_def Let_def)
next
  assume "Username (UsernameToken sec) = eu \<and> Type (Password (UsernameToken sec)) = PasswordText_URI"
  then show "ValidateUsernameToken lib ta tb used (Some sec) eu ep
          = (Some (UnsupportedPasswordType PasswordText_URI), used)"
    by (simp add: ValidateUsernameToken_def ConstantTimeCompare_def Let_def
        PasswordText_URI_def PasswordDigest_URI_def)
qed

theorem plaintext_mode_is_empty_type_witness:
  "Type (Password (UsernameToken
       \<lparr> UsernameToken = \<lparr> Username = ''admin'', Password = \<lparr> Type = [], Value = ''secret'' \<rparr>,
           Nonce = [], Created = [] \<rparr> \<rparr>)) = []
   \<and> ValidateUsernameToken example_lib 0 0 Map.empty
        (Some \<lparr> UsernameToken = \<lparr> Username = ''admin'', Password = \<lparr> Type = [], Value = ''secret'' \<rparr>,
           Nonce = [], Created = [] \<rparr> \<rparr>) ''admin'' ''secret'' = (None, Map.empty)
   \<and> \<not> (\<exists>ty. fst (ValidateUsernameToken example_lib 0 0 Map.empty
        (Some \<lparr> UsernameToken = \<lparr> Username = ''admin'', Password = \<lparr> Type = [], Value = ''secret'' \<rparr>,
           Nonce = [], Created = [] \<rparr> \<rparr>) ''admin'' ''secret'') = Some (UnsupportedPasswordType ty))"
  using plaintext_mode_is_empty_type
    [where sec = "\<lparr> UsernameToken = \<lparr> Username = ''admin'', Password = \<lparr> Type = [], Value = ''secret'' \<rparr>,
           Nonce = [], Created = [] \<rparr> \<rparr>"
       and eu = "''admin''" and ep = "''secret''" and lib = example_lib and ta = 0 and tb = 0
       and used = Map.empty]
  by simp

text \<open>
  Claim C10. In digest mode the nonce is stored before the timestamp, nonce-decoding and
  digest checks run. A validation with the configured username, a nonce and a created
  value, whose nonce is not yet recorded, leaves the nonce recorded with the instant of the
  call whatever its result (also when it fails on a malformed or stale timestamp, an
  undecodable nonce or a wrong digest). Every later digest-mode validation with that nonce
  that reaches the nonce check, a corrected retry included, is rejected as a replay; this
  still holds after a sweep that runs while the record is at most \<open>nonceTTL\<close> old, and a
  sweep that runs later removes the record.
\<close>

theorem failed_digest_attempt_consumes_nonce:
  assumes "Type (Password (UsernameToken sec)) = PasswordDigest_URI"
    and "Username (UsernameToken sec) = eu"
    and "Nonce (UsernameToken sec) \<noteq> []"
    and "Created (UsernameToken sec) \<noteq> []"
    and "used (Nonce (UsernameToken sec)) = None"
    and "Type (Password (UsernameToken retry)) = PasswordDigest_URI"
    and "Username (UsernameToken retry) = eu"
    and "Nonce (UsernameToken retry) = Nonce (UsernameToken sec)"
    and "Created (UsernameToken retry) \<noteq> []"
  shows "snd (ValidateUsernameToken lib ta tb used (Some sec) eu ep)
           = used(Nonce (UsernameToken sec) \<mapsto> ta)
     \<and> ValidateUsernameToken lib tc td
           (snd (ValidateUsernameToken lib ta tb used (Some sec) eu ep)) (Some retry) eu ep
         = (Some NonceAlreadyUsed, snd (ValidateUsernameToken lib ta tb used (Some sec) eu ep))
     \<and> (now - ta \<le> nonceTTL
        \<longrightarrow> ValidateUsernameToken lib tc td
              (cleanupNonces_tick now (snd (ValidateUsernameToken lib ta tb used (Some sec) eu ep)))
              (Some retry) eu ep
            = (Some NonceAlreadyUsed,
               cleanupNonces_tick now (snd (ValidateUsernameToken lib ta tb used (Some sec) eu ep))))
     \<and> (now - ta > nonceTTL
        \<longrightarrow> cleanupNonces_tick now (snd (ValidateUsernameToken lib ta tb used (Some sec) eu ep))
              (Nonce (UsernameToken sec)) = None)"
proof -
  let ?n = "Nonce (UsernameToken sec)"
  let ?after = "snd (ValidateUsernameToken lib ta tb used (Some sec) eu ep)"
  have stored: "?after = used(?n \<mapsto> ta)"
    using assms(1-5) PasswordDigest_URI_nonempty
    by (auto simp: auth_defs split: option.splits)
  have rec: "?after (Nonce (UsernameToken retry)) \<noteq> None"
    using stored assms(8) by simp
  have again: "ValidateUsernameToken lib tc td ?after (Some retry) eu ep = (Some NonceAlreadyUsed, ?after)"
    using replay_rejected[of retry eu ?after lib tc td ep] assms(3,6,7,8,9) rec by simp
  have swept_keep: "now - ta \<le> nonceTTL \<Longrightarrow>
      cleanupNonces_tick now ?after (Nonce (UsernameToken retry)) \<noteq> None"
    using stored assms(8) by (simp add: cleanupNonces_tick_def)
  have swept_again: "now - ta \<le> nonceTTL \<Longrightarrow>
      ValidateUsernameToken lib tc td (cleanupNonces_tick now ?after) (Some retry) eu ep
        = (Some NonceAlreadyUsed, cleanupNonces_tick now ?after)"
    using replay_rejected[of retry eu "cleanupNonces_tick now ?after" lib tc td ep]
      assms(3,6,7,8,9) swept_keep by simp
  have purged: "now - ta > nonceTTL \<Longrightarrow> cleanupNonces_tick now ?after ?n = None"
    using stored by (simp add: cleanupNonces_tick_def)
  show ?thesis using stored again swept_again purged by blast
qed

theorem failed_digest_attempt_consumes_nonce_witness:
  "ValidateUsernameToken example_lib 1704067201000000000 1704067201000000005 Map.empty
        (Some (digest_token ''admin'' ''wrong'' example_nonce example_created)) ''admin'' ''secret''
     = (Some InvalidCredentials, [example_nonce \<mapsto> 1704067201000000000])
   \<and> ValidateUsernameToken example_lib 1704067202000000000 1704067202000000005
        (snd (ValidateUsernameToken example_lib 1704067201000000000 1704067201000000005 Map.empty
           (Some (digest_token ''admin'' ''wrong'' example_nonce example_created)) ''admin'' ''secret''))
        (Some (digest_token ''admin'' example_digest example_nonce example_created)) ''admin'' ''secret''
     = (Some NonceAlreadyUsed,
        snd (ValidateUsernameToken example_lib 1704067201000000000 1704067201000000005 Map.empty
           (Some (digest_token ''admin'' ''wrong'' example_nonce example_created)) ''admin'' ''secret''))
   \<and> ValidateUsernameToken example_lib 1704067202000000000 1704067202000000005
        (cleanupNonces_tick 1704067261000000000
          (snd (ValidateUsernameToken example_lib 1704067201000000000 1704067201000000005 Map.empty
           (Some (digest_token ''admin'' ''wrong'' example_nonce example_created)) ''admin'' ''secret'')))
        (Some (digest_token ''admin'' example_digest example_nonce example_created)) ''admin'' ''secret''
     = (Some NonceAlreadyUsed,
        cleanupNonces_tick 1704067261000000000
          (snd (ValidateUsernameToken example_lib 1704067201000000000 1704067201000000005 Map.empty
           (Some (digest_token ''admin'' ''wrong'' example_nonce example_created)) ''admin'' ''secret'')))"
proof -
  have wrong: "ValidateUsernameToken example_lib 1704067201000000000 1704067201000000005 Map.empty
        (Some (digest_token ''admin'' ''wrong'' example_nonce example_created)) ''admin'' ''secret''
     = (Some InvalidCredentials, [example_nonce \<mapsto> 1704067201000000000])"
    by (simp add: auth_defs example_defs)
  have ttl: "(1704067261000000000::int) - 1704067201000000000 \<le> nonceTTL"
    by (simp add: nonceTTL_def minute_def)
  let ?sec = "digest_token ''admin'' ''wrong'' example_nonce example_created"
  let ?retry = "digest_token ''admin'' example_digest example_nonce example_created"
  have h1: "Type (Password (UsernameToken ?sec)) = PasswordDigest_URI"
    and h2: "Username (UsernameToken ?sec) = ''admin''"
    and h3: "Nonce (UsernameToken ?sec) \<noteq> []"
    and h4: "Created (UsernameToken ?sec) \<noteq> []"
    and h5: "Map.empty (Nonce (UsernameToken ?sec)) = (None :: time option)"
    and h6: "Type (Password (UsernameToken ?retry)) = PasswordDigest_URI"
    and h7: "Username (UsernameToken ?retry) = ''admin''"
    and h8: "Nonce (UsernameToken ?retry) = Nonce (UsernameToken ?sec)"
    and h9: "Created (UsernameToken ?retry) \<noteq> []"
    by (simp_all add: digest_token_def example_nonce_def example_created_def)
  note inst = failed_digest_attempt_consumes_nonce
      [where lib = example_lib and ep = "''secret''"
         and ta = 1704067201000000000 and tb = 1704067201000000005
         and tc = 1704067202000000000 and td = 1704067202000000005
         and now = 1704067261000000000, OF h1 h2 h3 h4 h5 h6 h7 h8 h9]
  from inst ttl wrong show ?thesis by blast
qed

section \<open>Properties of the relay orchestration client\<close>

lemmas mtx_defs = ConfigurePath_def addPath_def deletePath_def http_Do_def

lemma add_neq_delete: "add_request c name payload \<noteq> delete_request c name"
  by (simp add: add_request_def delete_request_def)

lemma addPath_exists_iff:
  assumes "json_Marshal_PathConfig lib cfg = Some payload"
    and "http_NewRequest_ok lib ''POST'' (req_url (add_request c name payload))"
  shows "(\<exists>err. fst (addPath lib srv c hist name cfg) = Some err \<and> isPathExistsError err)
         = exists_signal lib (srv hist (add_request c name payload))"
  using assms
  by (cases "srv hist (add_request c name payload)")
     (auto simp: addPath_def http_Do_def split: option.splits)

lemma addPath_hist:
  assumes "json_Marshal_PathConfig lib cfg = Some payload"
    and "http_NewRequest_ok lib ''POST'' (req_url (add_request c name payload))"
  shows "snd (addPath lib srv c hist name cfg) = hist @ [add_request c name payload]"
  using assms
  by (cases "srv hist (add_request c name payload)")
     (auto simp: addPath_def http_Do_def split: option.splits)

lemma addPath_ok_iff:
  assumes "json_Marshal_PathConfig lib cfg = Some payload"
    and "http_NewRequest_ok lib ''POST'' (req_url (add_request c name payload))"
  shows "(fst (addPath lib srv c hist name cfg) = None)
         = reply_ok (srv hist (add_request c name payload))"
  using assms
  by (cases "srv hist (add_request c name payload)")
     (auto simp: addPath_def http_Do_def split: option.splits)

lemma deletePath_hist:
  assumes "http_NewRequest_ok lib ''DELETE'' (req_url (delete_request c name))"
  shows "snd (deletePath lib srv c hist name) = hist @ [delete_request c name]"
    and "(fst (deletePath lib srv c hist name) = None) = reply_ok (srv hist (delete_request c name))"
  using assms
  by (cases "srv hist (delete_request c name)"; auto simp: deletePath_def http_Do_def)+

text \<open>
  Claim C5. \<open>ConfigurePath\<close> first sends the create request. When the reply is the
  already-exists signal (status 400 and a body whose decoded error is
  \<open>path already exists\<close>), it sends the delete request once and, after a delete that
  came back with 200, the create request once more; the call succeeds exactly when both the
  delete and the second create came back with 200. For any other reply to the first create
  the result is exactly the result of that create (the error is returned as it is) and no
  further request is sent. Hence a delete request is sent exactly when the first create
  met the already-exists signal. The hypotheses say that the configuration is marshalled
  and that both requests can be constructed.
\<close>

theorem ConfigurePath_fallback_iff_exists:
  assumes "json_Marshal_PathConfig lib cfg = Some payload"
    and "http_NewRequest_ok lib ''POST'' (req_url (add_request c name payload))"
    and "http_NewRequest_ok lib ''DELETE'' (req_url (delete_request c name))"
  shows
    "(exists_signal lib (srv hist (add_request c name payload)) \<longrightarrow>
        snd (ConfigurePath lib srv c hist name cfg)
          = hist @ [add_request c name payload, delete_request c name]
              @ (if reply_ok (srv (hist @ [add_request c name payload]) (delete_request c name))
                 then [add_request c name payload] else [])
        \<and> ((fst (ConfigurePath lib srv c hist name cfg) = None)
             = (reply_ok (srv (hist @ [add_request c name payload]) (delete_request c name))
                \<and> reply_ok (srv (hist @ [add_request c name payload, delete_request c name])
                              (add_request c name payload)))))
     \<and> (\<not> exists_signal lib (srv hist (add_request c name payload)) \<longrightarrow>
        ConfigurePath lib srv c hist name cfg = addPath lib srv c hist name cfg
        \<and> snd (ConfigurePath lib srv c hist name cfg) = hist @ [add_request c name payload])
     \<and> (delete_request c name \<in> set (drop (length hist) (snd (ConfigurePath lib srv c hist name cfg))))
        = exists_signal lib (srv hist (add_request c name payload))"
proof -
  let ?add = "add_request c name payload"
  let ?del = "delete_request c name"
  note ex = addPath_exists_iff[OF assms(1,2), of srv hist]
  note h1 = addPath_hist[OF assms(1,2), of srv]
  note ok = addPath_ok_iff[OF assms(1,2), of srv]
  note d = deletePath_hist[OF assms(3), of srv]
  have no: "\<not> exists_signal lib (srv hist ?add) \<Longrightarrow>
      ConfigurePath lib srv c hist name cfg = addPath lib srv c hist name cfg"
    using ex by (cases "addPath lib srv c hist name cfg") (auto simp: ConfigurePath_def split: option.splits)
  have yes_hist: "exists_signal lib (srv hist ?add) \<Longrightarrow>
      snd (ConfigurePath lib srv c hist name cfg)
          = hist @ [?add, ?del] @ (if reply_ok (srv (hist @ [?add]) ?del) then [?add] else [])"
    using ex h1[of hist] h1[of "hist @ [?add, ?del]"] d[of "hist @ [?add]"]
    by (cases "addPath lib srv c hist name cfg"; cases "deletePath lib srv c (hist @ [?add]) name";
        cases "addPath lib srv c (hist @ [?add, ?del]) name cfg")
       (auto simp: ConfigurePath_def split: option.splits)
  have yes_res: "exists_signal lib (srv hist ?add) \<Longrightarrow>
      (fst (ConfigurePath lib srv c hist name cfg) = None)
             = (reply_ok (srv (hist @ [?add]) ?del) \<and> reply_ok (srv (hist @ [?add, ?del]) ?add))"
    using ex h1[of hist] h1[of "hist @ [?add, ?del]"] d[of "hist @ [?add]"] ok[of "hist @ [?add, ?del]"]
    by (cases "addPath lib srv c hist name cfg"; cases "deletePath lib srv c (hist @ [?add]) name";
        cases "addPath lib srv c (hist @ [?add, ?del]) name cfg")
       (auto simp: ConfigurePath_def split: option.splits)
  have iff: "(?del \<in> set (drop (length hist) (snd (ConfigurePath lib srv c hist name cfg))))
        = exists_signal lib (srv hist ?add)"
  proof (cases "exists_signal lib (srv hist ?add)")
    case True
    then show ?thesis using yes_hist by simp
  next
    case False
    then show ?thesis using no h1[of hist] add_neq_delete[of c name payload] by auto
  qed
  show ?thesis using no yes_hist yes_res iff h1[of hist] by simp
qed

lemmas example_net_defs = example_net_lib_def stale_relay_def broken_relay_def example_client_def
  empty_PathConfig_def exists_body_def add_request_def delete_request_def

theorem ConfigurePath_fallback_iff_exists_witness:
  "exists_signal example_net_lib (stale_relay [] (add_request example_client ''cam1'' ''{}''))
   \<and> ConfigurePath example_net_lib stale_relay example_client [] ''cam1'' empty_PathConfig
       = (None, [add_request example_client ''cam1'' ''{}'', delete_request example_client ''cam1'',
                 add_request example_client ''cam1'' ''{}''])
   \<and> \<not> exists_signal example_net_lib (broken_relay [] (add_request example_client ''cam1'' ''{}''))
   \<and> ConfigurePath example_net_lib broken_relay example_client [] ''cam1'' empty_PathConfig
       = (Some (UnexpectedStatusCode 500 ''internal error''),
          [add_request example_client ''cam1'' ''{}''])"
proof -
  have m: "json_Marshal_PathConfig example_net_lib empty_PathConfig = Some ''{}''"
    and a: "http_NewRequest_ok example_net_lib ''POST'' (req_url (add_request example_client ''cam1'' ''{}''))"
    and d: "http_NewRequest_ok example_net_lib ''DELETE'' (req_url (delete_request example_client ''cam1''))"
    by (simp_all add: example_net_lib_def)
  have s1: "exists_signal example_net_lib (stale_relay [] (add_request example_client ''cam1'' ''{}''))"
    by (simp add: example_net_lib_def stale_relay_def)
  have s2: "\<not> exists_signal example_net_lib (broken_relay [] (add_request example_client ''cam1'' ''{}''))"
    by (simp add: example_net_lib_def broken_relay_def)
  have r1: "reply_ok (stale_relay ([] @ [add_request example_client ''cam1'' ''{}''])
        (delete_request example_client ''cam1''))"
    and r2: "reply_ok (stale_relay ([] @ [add_request example_client ''cam1'' ''{}'',
        delete_request example_client ''cam1'']) (add_request example_client ''cam1'' ''{}''))"
    by (simp_all add: stale_relay_def)
  have b: "addPath example_net_lib broken_relay example_client [] ''cam1'' empty_PathConfig
      = (Some (UnexpectedStatusCode 500 ''internal error''), [add_request example_client ''cam1'' ''{}''])"
    by (simp add: addPath_def http_Do_def example_net_lib_def broken_relay_def exists_body_def)
  from ConfigurePath_fallback_iff_exists[OF m a d, of stale_relay "[]"] s1 r1 r2
  have c1: "ConfigurePath example_net_lib stale_relay example_client [] ''cam1'' empty_PathConfig
       = (None, [add_request example_client ''cam1'' ''{}'', delete_request example_client ''cam1'',
                 add_request example_client ''cam1'' ''{}''])"
    by (cases "ConfigurePath example_net_lib stale_relay example_client [] ''cam1'' empty_PathConfig") simp
  from ConfigurePath_fallback_iff_exists[OF m a d, of broken_relay "[]"] s2 b
  have c2: "ConfigurePath example_net_lib broken_relay example_client [] ''cam1'' empty_PathConfig
       = (Some (UnexpectedStatusCode 500 ''internal error''),
          [add_request example_client ''cam1'' ''{}''])"
    by simp
  show ?thesis using s1 s2 c1 c2 by blast
qed

section \<open>Properties of the coordinate transform\<close>

lemma fl_small:
  assumes "binary64_rounding fl" and "\<bar>r\<bar> \<le> 1000"
  shows "\<bar>fl r - r\<bar> \<le> 1 / 1000000"
proof -
  have "\<bar>r\<bar> \<le> (2::real) ^ 1023"
  proof -
    have "(1000::real) \<le> 2 ^ 10" by simp
    also have "\<dots> \<le> 2 ^ 1023" by (rule power_increasing) simp_all
    finally show ?thesis using assms(2) by linarith
  qed
  then have b: "\<bar>fl r - r\<bar> \<le> \<bar>r\<bar> / 2 ^ 53 + 1 / 2 ^ 1075"
    using assms(1) by (simp add: binary64_rounding_def)
  have "(1::real) / 2 ^ 1075 \<le> 1 / 2 ^ 53"
    by (rule divide_left_mono) (simp_all add: power_increasing)
  moreover have "\<bar>r\<bar> / 2 ^ 53 \<le> 1000 / 2 ^ 53"
    using assms(2) by (simp add: divide_right_mono)
  moreover have "(1000::real) / 2 ^ 53 + 1 / 2 ^ 53 \<le> 1 / 1000000" by simp
  ultimately show ?thesis using b by linarith
qed

lemma math_Round_near: "\<bar>math_Round b - b\<bar> \<le> 1 / 2"
proof (cases "b < 0")
  case True
  have "of_int \<lfloor>- b + 1 / 2\<rfloor> \<le> - b + 1 / 2" "- b + 1 / 2 < of_int \<lfloor>- b + 1 / 2\<rfloor> + 1"
    by linarith+
  moreover have "math_Round b = - of_int \<lfloor>- b + 1 / 2\<rfloor>"
    using True by (simp only: math_Round_def if_True)
  ultimately show ?thesis by linarith
next
  case False
  have "of_int \<lfloor>b + 1 / 2\<rfloor> \<le> b + 1 / 2" "b + 1 / 2 < of_int \<lfloor>b + 1 / 2\<rfloor> + 1"
    by linarith+
  moreover have "math_Round b = of_int \<lfloor>b + 1 / 2\<rfloor>"
    using False by (simp only: math_Round_def if_False)
  ultimately show ?thesis by linarith
qed

lemma math_Round_int: "\<exists>k. math_Round b = of_int k"
  unfolding math_Round_def by (metis of_int_minus)

lemma go_int_of_int: "go_int (of_int k) = k"
  unfolding go_int_def by simp

lemma go_int_Round: "of_int (go_int (math_Round b)) = math_Round b"
  using math_Round_int[of b] go_int_of_int by auto

lemma clamp_closer:
  assumes "mn \<le> x" "x \<le> mx"
  shows "\<bar>clamp d mn mx - x\<bar> \<le> \<bar>d - x\<bar>"
  using assms unfolding clamp_def by auto


lemma clamp_id: "mn \<le> v \<Longrightarrow> v \<le> mx \<Longrightarrow> clamp v mn mx = v"
  by (auto simp: clamp_def)

lemma pan_round_trip:
  assumes R: "binary64_rounding fl" and x: "- 1 \<le> x" "x \<le> 1"
  shows "\<bar>fl (fl (fl (of_int (go_int (math_Round (fl (fl (x + 1) * 177.5))))) / 177.5) - 1) - x\<bar>
           \<le> 1 / 177.5"
proof -
  define a where "a = fl (x + 1)"
  define ak where "ak = a * 177.5"
  define b where "b = fl ak"
  define m where "m = math_Round b"
  define c where "c = fl m"
  define ck where "ck = c / 177.5"
  define q where "q = fl ck"
  define d where "d = fl (q - 1)"
  have ak: "2 * ak = 355 * a" by (simp add: ak_def)
  have ck: "355 * ck = 2 * c" by (simp add: ck_def)
  have a: "\<bar>a - (x + 1)\<bar> \<le> 1 / 1000000"
    unfolding a_def using x by (intro fl_small[OF R]) linarith
  have b: "\<bar>b - ak\<bar> \<le> 1 / 1000000"
    unfolding b_def using x a ak by (intro fl_small[OF R]) linarith
  have m: "\<bar>m - b\<bar> \<le> 1 / 2" unfolding m_def by (rule math_Round_near)
  have c: "\<bar>c - m\<bar> \<le> 1 / 1000000"
    unfolding c_def using x a ak b m by (intro fl_small[OF R]) linarith
  have q: "\<bar>q - ck\<bar> \<le> 1 / 1000000"
    unfolding q_def using x a ak b m c ck by (intro fl_small[OF R]) linarith
  have d: "\<bar>d - (q - 1)\<bar> \<le> 1 / 1000000"
    unfolding d_def using x a ak b m c ck q by (intro fl_small[OF R]) linarith
  have "d - x \<le> 2 / 355" "- (d - x) \<le> 2 / 355"
    using x a[unfolded abs_le_iff] ak b[unfolded abs_le_iff] m[unfolded abs_le_iff]
      c[unfolded abs_le_iff] ck q[unfolded abs_le_iff] d[unfolded abs_le_iff]
    by linarith+
  then have "\<bar>d - x\<bar> \<le> 2 / 355" by (rule abs_leI)
  then have "\<bar>d - x\<bar> \<le> 1 / 177.5" by simp
  then show ?thesis
    unfolding d_def q_def ck_def c_def m_def b_def ak_def a_def go_int_Round .
qed

lemma tilt_round_trip:
  assumes R: "binary64_rounding fl" and y: "- 1 \<le> y" "y \<le> 1"
  shows "\<bar>fl (1 - fl (fl (of_int (go_int (math_Round (fl (fl (1 - y) * 90))))) / 90)) - y\<bar>
           \<le> 1 / 90"
proof -
  define a where "a = fl (1 - y)"
  define ak where "ak = a * 90"
  define b where "b = fl ak"
  define m where "m = math_Round b"
  define c where "c = fl m"
  define ck where "ck = c / 90"
  define q where "q = fl ck"
  define d where "d = fl (1 - q)"
  have ak: "ak = 90 * a" by (simp add: ak_def)
  have ck: "90 * ck = c" by (simp add: ck_def)
  have a: "\<bar>a - (1 - y)\<bar> \<le> 1 / 1000000"
    unfolding a_def using y by (intro fl_small[OF R]) linarith
  have b: "\<bar>b - ak\<bar> \<le> 1 / 1000000"
    unfolding b_def using y a ak by (intro fl_small[OF R]) linarith
  have m: "\<bar>m - b\<bar> \<le> 1 / 2" unfolding m_def by (rule math_Round_near)
  have c: "\<bar>c - m\<bar> \<le> 1 / 1000000"
    unfolding c_def using y a ak b m by (intro fl_small[OF R]) linarith
  have q: "\<bar>q - ck\<bar> \<le> 1 / 1000000"
    unfolding q_def using y a ak b m c ck by (intro fl_small[OF R]) linarith
  have d: "\<bar>d - (1 - q)\<bar> \<le> 1 / 1000000"
    unfolding d_def using y a ak b m c ck q by (intro fl_small[OF R]) linarith
  have "d - y \<le> 1 / 90" "- (d - y) \<le> 1 / 90"
    using y a[unfolded abs_le_iff] ak b[unfolded abs_le_iff] m[unfolded abs_le_iff]
      c[unfolded abs_le_iff] ck q[unfolded abs_le_iff] d[unfolded abs_le_iff]
    by linarith+
  then have "\<bar>d - y\<bar> \<le> 1 / 90" by (rule abs_leI)
  then show ?thesis
    unfolding d_def q_def ck_def c_def m_def b_def ak_def a_def go_int_Round .
qed

text \<open>
  Claim C6. For every \<open>(x, y)\<close> in \<open>[-1,1] \<times> [-1,1]\<close> and every velocity, converting to
  native degrees with \<open>ONVIFToAtomCam\<close> and back with \<open>AtomCamToONVIF\<close> gives \<open>(x', y')\<close>
  with \<open>|x' - x| \<le> 1/177.5\<close> and \<open>|y' - y| \<le> 1/90\<close>, that is at most one native unit per
  axis. This holds for every rounding \<open>fl\<close> of the floating-point operations that meets
  the double-precision error bound, in particular for exact arithmetic.
\<close>

theorem round_trip_within_one_degree:
  assumes "binary64_rounding fl" and "- 1 \<le> x" and "x \<le> 1" and "- 1 \<le> y" and "y \<le> 1"
  shows "\<bar>fst (round_trip fl x y velocity) - x\<bar> \<le> 1 / 177.5
       \<and> \<bar>snd (round_trip fl x y velocity) - y\<bar> \<le> 1 / 90"
proof -
  have px: "\<bar>clamp (fl (fl (fl (of_int (go_int (math_Round (fl (fl (x + 1) * 177.5))))) / 177.5) - 1))
              (- 1) 1 - x\<bar> \<le> 1 / 177.5"
    using clamp_closer[OF assms(2,3)] pan_round_trip[OF assms(1,2,3)] by (rule order_trans)
  have py: "\<bar>clamp (fl (1 - fl (fl (of_int (go_int (math_Round (fl (fl (1 - y) * 90))))) / 90)))
              (- 1) 1 - y\<bar> \<le> 1 / 90"
    using clamp_closer[OF assms(4,5)] tilt_round_trip[OF assms(1,4,5)] by (rule order_trans)
  show ?thesis
    using px py
    by (simp add: round_trip_def ONVIFToAtomCam_def AtomCamToONVIF_def Let_def
        clamp_id[OF assms(2,3)] clamp_id[OF assms(4,5)])
qed

theorem round_trip_within_one_degree_witness:
  "binary64_rounding (\<lambda>r. r) \<and> - 1 \<le> (1 / 2 :: real) \<and> (1 / 2 :: real) \<le> 1
   \<and> - 1 \<le> (- 1 / 3 :: real) \<and> (- 1 / 3 :: real) \<le> 1
   \<and> ONVIFToAtomCam (\<lambda>r. r) (1 / 2) (- 1 / 3) (1 / 2) = (266, 120, 5)
   \<and> round_trip (\<lambda>r. r) (1 / 2) (- 1 / 3) (1 / 2) = (177 / 355, - 1 / 3)
   \<and> \<bar>fst (round_trip (\<lambda>r. r) (1 / 2) (- 1 / 3) (1 / 2)) - 1 / 2\<bar> \<le> 1 / 177.5
   \<and> \<bar>snd (round_trip (\<lambda>r. r) (1 / 2) (- 1 / 3) (1 / 2)) - (- 1 / 3)\<bar> \<le> 1 / 90"
proof -
  have r: "binary64_rounding (\<lambda>r. r)" by (simp add: binary64_rounding_def)
  have o: "ONVIFToAtomCam (\<lambda>r. r) (1 / 2) (- 1 / 3) (1 / 2) = (266, 120, 5)"
    by (simp add: ONVIFToAtomCam_def clamp_def math_Round_def go_int_def Let_def)
  have t: "round_trip (\<lambda>r. r) (1 / 2) (- 1 / 3) (1 / 2) = (177 / 355, - 1 / 3)"
    by (simp only: round_trip_def o) (simp add: AtomCamToONVIF_def clamp_def Let_def)
  from round_trip_within_one_degree[OF r, of "1 / 2" "- 1 / 3" "1 / 2"] r o t
  show ?thesis by simp
qed

lemma go_int_math_Round_nonneg: "0 \<le> b \<Longrightarrow> go_int (math_Round b) = round b"
  by (simp add: math_Round_def go_int_of_int round_def)

text \<open>
  Claim C7. The speed returned by \<open>ONVIFToAtomCam\<close> always lies in \<open>[1, 9]\<close>, so it is
  never 0. For a velocity in \<open>[0,1]\<close> it equals \<open>round(velocity * 8) + 1\<close> clamped to
  \<open>[1, 9]\<close> (where the clamp changes nothing); velocity 0 yields speed 1 and velocity 1
  yields speed 9. The hypotheses on \<open>fl\<close> say that the product \<open>velocity * 8\<close> is computed
  exactly, as a multiplication of a \<open>float64\<close> in \<open>[0,1]\<close> by a power of two is.
\<close>

theorem speed_in_1_to_9:
  "1 \<le> snd (snd (ONVIFToAtomCam fl x y velocity))
   \<and> snd (snd (ONVIFToAtomCam fl x y velocity)) \<le> 9
   \<and> snd (snd (ONVIFToAtomCam fl x y velocity)) \<noteq> 0
   \<and> (0 \<le> velocity \<and> velocity \<le> 1 \<and> fl (velocity * 8) = velocity * 8
      \<longrightarrow> snd (snd (ONVIFToAtomCam fl x y velocity)) = max 1 (min 9 (round (velocity * 8) + 1))
          \<and> snd (snd (ONVIFToAtomCam fl x y velocity)) = round (velocity * 8) + 1)
   \<and> (fl 0 = 0 \<longrightarrow> snd (snd (ONVIFToAtomCam fl x y 0)) = 1)
   \<and> (fl 8 = 8 \<longrightarrow> snd (snd (ONVIFToAtomCam fl x y 1)) = 9)"
proof -
  have bounds: "1 \<le> snd (snd (ONVIFToAtomCam fl x y velocity))
      \<and> snd (snd (ONVIFToAtomCam fl x y velocity)) \<le> 9"
    by (simp add: ONVIFToAtomCam_def Let_def)
  have mid: "snd (snd (ONVIFToAtomCam fl x y velocity)) = max 1 (min 9 (round (velocity * 8) + 1))
          \<and> snd (snd (ONVIFToAtomCam fl x y velocity)) = round (velocity * 8) + 1"
    if v: "0 \<le> velocity \<and> velocity \<le> 1 \<and> fl (velocity * 8) = velocity * 8"
  proof -
    have c: "clamp velocity 0 1 = velocity" using v by (auto simp: clamp_def)
    have r: "go_int (math_Round (fl (velocity * 8))) = round (velocity * 8)"
      using v by (simp add: go_int_math_Round_nonneg)
    have lo: "0 \<le> round (velocity * 8)" using v by (simp add: round_def)
    have "velocity * 8 + 1 / 2 < 9" using v by linarith
    then have hi: "round (velocity * 8) \<le> 8" by (simp add: round_def floor_less_iff)
    show ?thesis using lo hi by (simp add: ONVIFToAtomCam_def Let_def c r)
  qed
  have zero: "snd (snd (ONVIFToAtomCam fl x y 0)) = 1" if "fl 0 = 0"
    using that by (simp add: ONVIFToAtomCam_def Let_def clamp_def math_Round_def go_int_def)
  have one: "snd (snd (ONVIFToAtomCam fl x y 1)) = 9" if "fl 8 = 8"
    using that by (simp add: ONVIFToAtomCam_def Let_def clamp_def math_Round_def go_int_def)
  show ?thesis using bounds mid zero one by auto
qed

theorem speed_in_1_to_9_witness:
  "(0::real) \<le> 1 / 2 \<and> (1 / 2 :: real) \<le> 1 \<and> (\<lambda>r::real. r) (1 / 2 * 8) = 1 / 2 * 8
   \<and> snd (snd (ONVIFToAtomCam (\<lambda>r. r) 0 0 (1 / 2))) = 5
   \<and> round (1 / 2 * 8 :: real) + 1 = 5
   \<and> snd (snd (ONVIFToAtomCam (\<lambda>r. r) 0 0 0)) = 1
   \<and> snd (snd (ONVIFToAtomCam (\<lambda>r. r) 0 0 1)) = 9"
  using speed_in_1_to_9[of "\<lambda>r. r" 0 0 "1 / 2"]
  by (simp add: round_def)

section \<open>Properties of the PTZ service\<close>

lemma find_Some_in_set: "find P xs = Some x \<Longrightarrow> x \<in> set xs"
  by (induction xs) (auto split: if_splits)

lemma GetProfileByToken_valid:
  assumes "GetProfileByToken cams token = Some profile"
  shows "CameraIx profile < length cams"
proof -
  from assms have "profile \<in> set (GetAllProfiles cams)"
    unfolding GetProfileByToken_def by (rule find_Some_in_set)
  then obtain i cam where "(i, cam) \<in> set (enumerate 0 cams)" and "CameraIx profile = i"
    unfolding GetAllProfiles_def by auto
  then show ?thesis by (auto simp: in_set_enumerate_eq)
qed










lemmas ptz_example_defs = example_state_def example_camera_config_def NewCamera_def
  GetProfileByToken_def GetAllProfiles_def enumerate_eq_zip pan_tilt_def

lemma example_profile:
  "GetProfileByToken (cameras example_state) ''cam1_main''
     = Some \<lparr> CameraIx = 0, Stream = hd (Streams example_camera_config) \<rparr>"
  by (simp add: ptz_example_defs)



lemma big_mag: "\<not> velocityMag id (3 / 5) (4 / 5) < id 0.01"
  by (simp add: velocityMag_def)






lemma SetPTZPosition_simps:
  "wire (SetPTZPosition ix pan tilt st) = wire st"
  "length (cameras (SetPTZPosition ix pan tilt st)) = length (cameras st)"
  "ix < length (cameras st) \<Longrightarrow>
     Config (cameras (SetPTZPosition ix pan tilt st) ! ix) = Config (cameras st ! ix)"
  "ix < length (cameras st) \<Longrightarrow> ptzPan (cameras (SetPTZPosition ix pan tilt st) ! ix) = pan"
  "ix < length (cameras st) \<Longrightarrow> ptzTilt (cameras (SetPTZPosition ix pan tilt st) ! ix) = tilt"
  by (simp_all add: SetPTZPosition_def)

lemma set_position_then_move_tracked:
  assumes "ix < length (cameras st0)" and "wire st0 = wire st"
    and "Config (cameras st0 ! ix) = Config (cameras st ! ix)"
  shows "tracked_is_commanded lib srv st ix speed
           (set_position_then_move lib srv st0 ix pan tilt speed)"
    and "GetPTZPosition (snd (set_position_then_move lib srv st0 ix pan tilt speed)) ix = (pan, tilt)"
  using assms
  by (simp_all add: tracked_is_commanded_def set_position_then_move_def Let_def
      SetPTZPosition_simps GetPTZPosition_def split: prod.splits)

lemma set_position_then_move_cameras:
  "cameras (snd (set_position_then_move lib srv st ix pan tilt speed))
     = cameras (SetPTZPosition ix pan tilt st)"
  by (simp add: set_position_then_move_def Let_def split: prod.splits)

lemma send_stop_cameras: "cameras (snd (send_stop lib srv st ix)) = cameras st"
  by (simp add: send_stop_def split: prod.splits)

lemma ContinuousMove_cameras:
  "cameras (snd (ContinuousMove lib fl srv st tok velocity))
     = cameras (snd (ContinuousMove lib fl srv' st tok velocity))"
  by (simp add: ContinuousMove_def Let_def set_position_then_move_cameras send_stop_cameras
      split: option.splits prod.splits)

lemma GotoHomePosition_cameras:
  "cameras (snd (GotoHomePosition lib fl srv st tok speed))
     = cameras (snd (GotoHomePosition lib fl srv' st tok speed))"
  by (simp add: GotoHomePosition_def Let_def set_position_then_move_cameras
      split: option.splits prod.splits)

lemma GotoPreset_cameras:
  "cameras (snd (GotoPreset lib fl srv st tok ptok speed))
     = cameras (snd (GotoPreset lib fl srv' st tok ptok speed))"
  by (simp add: GotoPreset_def Let_def set_position_then_move_cameras
      split: option.splits prod.splits)

lemma AbsoluteMove_cameras:
  "cameras (snd (AbsoluteMove lib fl srv st tok position speed))
     = cameras (snd (AbsoluteMove lib fl srv' st tok position speed))"
  by (simp add: AbsoluteMove_def Let_def set_position_then_move_cameras
      split: option.splits prod.splits)

lemma RelativeMove_cameras:
  "cameras (snd (RelativeMove lib fl srv st tok translation speed))
     = cameras (snd (RelativeMove lib fl srv' st tok translation speed))"
  by (simp add: RelativeMove_def Let_def set_position_then_move_cameras
      split: option.splits prod.splits)

lemma ContinuousMove_tracked:
  assumes "GetProfileByToken (cameras st) tok = Some profile"
    and "CapPTZ (Capabilities (Config (cameras st ! CameraIx profile)))"
    and "PanTilt velocity = Some v" and "\<not> velocityMag fl (X v) (Y v) < fl 0.01"
  shows "tracked_is_commanded lib srv st (CameraIx profile)
           (clamp_int (go_int (math_Round (fl (velocityMag fl (X v) (Y v) * 4))) + 5) 5 9)
           (ContinuousMove lib fl srv st tok velocity)"
  using assms GetProfileByToken_valid[OF assms(1)]
  by (simp add: ContinuousMove_def Let_def set_position_then_move_tracked split: prod.splits)

lemma GotoHomePosition_tracked:
  assumes "GetProfileByToken (cameras st) tok = Some profile"
    and "CapPTZ (Capabilities (Config (cameras st ! CameraIx profile)))"
  shows "tracked_is_commanded lib srv st (CameraIx profile) (preset_speed fl speed)
           (GotoHomePosition lib fl srv st tok speed)"
  using assms GetProfileByToken_valid[OF assms(1)]
  by (simp add: GotoHomePosition_def Let_def set_position_then_move_tracked split: prod.splits)

lemma GotoPreset_tracked:
  assumes "GetProfileByToken (cameras st) tok = Some profile"
    and "CapPTZ (Capabilities (Config (cameras st ! CameraIx profile)))"
    and "find_preset 0 (Presets (PTZ (Config (cameras st ! CameraIx profile)))) ptok = Some preset"
    and "\<not> (MQTTBroker preset \<noteq> [] \<and> MQTTTopic preset \<noteq> [])"
  shows "tracked_is_commanded lib srv st (CameraIx profile) (preset_speed fl speed)
           (GotoPreset lib fl srv st tok ptok speed)"
    and "GetPTZPosition (snd (GotoPreset lib fl srv st tok ptok speed)) (CameraIx profile)
           = (Pan preset, Tilt preset)"
  using assms GetProfileByToken_valid[OF assms(1)]
  by (auto simp add: GotoPreset_def Let_def set_position_then_move_tracked split: prod.splits)

lemma AbsoluteMove_tracked:
  assumes "GetProfileByToken (cameras st) tok = Some profile"
    and "CapPTZ (Capabilities (Config (cameras st ! CameraIx profile)))"
    and "PanTilt position = Some pt"
  shows "tracked_is_commanded lib srv st (CameraIx profile) (move_speed fl speed)
           (AbsoluteMove lib fl srv st tok position speed)"
  using assms GetProfileByToken_valid[OF assms(1)]
  by (auto simp add: AbsoluteMove_def Let_def set_position_then_move_tracked SetPTZPosition_simps
      split: prod.splits)

lemma RelativeMove_tracked:
  assumes "GetProfileByToken (cameras st) tok = Some profile"
    and "CapPTZ (Capabilities (Config (cameras st ! CameraIx profile)))"
    and "PanTilt translation = Some tr"
  shows "tracked_is_commanded lib srv st (CameraIx profile) (move_speed fl speed)
           (RelativeMove lib fl srv st tok translation speed)"
  using assms GetProfileByToken_valid[OF assms(1)]
  by (auto simp add: RelativeMove_def Let_def set_position_then_move_tracked SetPTZPosition_simps
      split: prod.splits)

text \<open>
  Claim C9, amended. Every operation that commands a move sets the tracked position to
  the target before the move command is sent, and the position stays there whatever
  becomes of the command: for \<open>ContinuousMove\<close> (at or above the threshold),
  \<open>GotoHomePosition\<close>, \<open>GotoPreset\<close> (for a position preset), \<open>AbsoluteMove\<close> and
  \<open>RelativeMove\<close> on a PTZ-capable profile, the result of the operation and the requests
  on the wire are those of \<open>PTZMove\<close> called with the pan and tilt that are tracked after
  the operation, be that result success, a rejection or a transport failure; for
  \<open>GotoPreset\<close> the tracked position is the preset's. The tracked positions after any of
  the five operations do not depend on how the camera answers.
\<close>

theorem tracked_position_set_before_move:
  assumes "GetProfileByToken (cameras st) tok = Some profile"
    and "CapPTZ (Capabilities (Config (cameras st ! CameraIx profile)))"
  shows
    "(PanTilt velocity = Some v \<and> \<not> velocityMag fl (X v) (Y v) < fl 0.01 \<longrightarrow>
        tracked_is_commanded lib srv st (CameraIx profile)
          (clamp_int (go_int (math_Round (fl (velocityMag fl (X v) (Y v) * 4))) + 5) 5 9)
          (ContinuousMove lib fl srv st tok velocity))
     \<and> tracked_is_commanded lib srv st (CameraIx profile) (preset_speed fl hspeed)
          (GotoHomePosition lib fl srv st tok hspeed)
     \<and> (find_preset 0 (Presets (PTZ (Config (cameras st ! CameraIx profile)))) ptok = Some preset
          \<and> \<not> (MQTTBroker preset \<noteq> [] \<and> MQTTTopic preset \<noteq> []) \<longrightarrow>
        tracked_is_commanded lib srv st (CameraIx profile) (preset_speed fl pspeed)
          (GotoPreset lib fl srv st tok ptok pspeed)
        \<and> GetPTZPosition (snd (GotoPreset lib fl srv st tok ptok pspeed)) (CameraIx profile)
            = (Pan preset, Tilt preset))
     \<and> (PanTilt position = Some pt \<longrightarrow>
        tracked_is_commanded lib srv st (CameraIx profile) (move_speed fl aspeed)
          (AbsoluteMove lib fl srv st tok position aspeed))
     \<and> (PanTilt translation = Some tr \<longrightarrow>
        tracked_is_commanded lib srv st (CameraIx profile) (move_speed fl rspeed)
          (RelativeMove lib fl srv st tok translation rspeed))
     \<and> cameras (snd (ContinuousMove lib fl srv st tok velocity))
         = cameras (snd (ContinuousMove lib fl other st tok velocity))
     \<and> cameras (snd (GotoHomePosition lib fl srv st tok hspeed))
         = cameras (snd (GotoHomePosition lib fl other st tok hspeed))
     \<and> cameras (snd (GotoPreset lib fl srv st tok ptok pspeed))
         = cameras (snd (GotoPreset lib fl other st tok ptok pspeed))
     \<and> cameras (snd (AbsoluteMove lib fl srv st tok position aspeed))
         = cameras (snd (AbsoluteMove lib fl other st tok position aspeed))
     \<and> cameras (snd (RelativeMove lib fl srv st tok translation rspeed))
         = cameras (snd (RelativeMove lib fl other st tok translation rspeed))"
proof (intro conjI impI)
  assume "PanTilt velocity = Some v \<and> \<not> velocityMag fl (X v) (Y v) < fl 0.01"
  then show "tracked_is_commanded lib srv st (CameraIx profile)
          (clamp_int (go_int (math_Round (fl (velocityMag fl (X v) (Y v) * 4))) + 5) 5 9)
          (ContinuousMove lib fl srv st tok velocity)"
    using ContinuousMove_tracked[OF assms] by simp
next
  show "tracked_is_commanded lib srv st (CameraIx profile) (preset_speed fl hspeed)
          (GotoHomePosition lib fl srv st tok hspeed)"
    by (rule GotoHomePosition_tracked[OF assms])
next
  assume p: "find_preset 0 (Presets (PTZ (Config (cameras st ! CameraIx profile)))) ptok = Some preset
          \<and> \<not> (MQTTBroker preset \<noteq> [] \<and> MQTTTopic preset \<noteq> [])"
  from p show "tracked_is_commanded lib srv st (CameraIx profile) (preset_speed fl pspeed)
          (GotoPreset lib fl srv st tok ptok pspeed)"
    using GotoPreset_tracked(1)[OF assms] by simp
  from p show "GetPTZPosition (snd (GotoPreset lib fl srv st tok ptok pspeed)) (CameraIx profile)
            = (Pan preset, Tilt preset)"
    using GotoPreset_tracked(2)[OF assms] by simp
next
  assume "PanTilt position = Some pt"
  then show "tracked_is_commanded lib srv st (CameraIx profile) (move_speed fl aspeed)
          (AbsoluteMove lib fl srv st tok position aspeed)"
    by (rule AbsoluteMove_tracked[OF assms])
next
  assume "PanTilt translation = Some tr"
  then show "tracked_is_commanded lib srv st (CameraIx profile) (move_speed fl rspeed)
          (RelativeMove lib fl srv st tok translation rspeed)"
    by (rule RelativeMove_tracked[OF assms])
qed (rule ContinuousMove_cameras GotoHomePosition_cameras GotoPreset_cameras
      AbsoluteMove_cameras RelativeMove_cameras)+

lemma example_cap:
  "CapPTZ (Capabilities (Config (cameras example_state ! CameraIx
      \<lparr> CameraIx = 0, Stream = hd (Streams example_camera_config) \<rparr>)))"
  by (simp add: example_state_def NewCamera_def example_camera_config_def)

lemma show_int_small: "show_int 1 = ''1''" "show_int 2 = ''2''"
  by (simp_all add: show_int_def digits.simps digit_char_def)

lemma example_preset_1:
  "find_preset 0 (Presets (PTZ (Config (cameras example_state ! 0)))) ''1''
     = Some \<lparr> PresetName = ''door'', Pan = 10, Tilt = 20, Token = ''1'',
              MQTTBroker = [], MQTTTopic = [], MQTTMessage = [] \<rparr>"
  by (simp add: example_state_def NewCamera_def example_camera_config_def)

lemma example_preset_2:
  "find_preset 0 (Presets (PTZ (Config (cameras example_state ! 0)))) ''2''
     = Some \<lparr> PresetName = ''far'', Pan = 400, Tilt = 20, Token = [],
              MQTTBroker = [], MQTTTopic = [], MQTTMessage = [] \<rparr>"
  by (simp add: example_state_def NewCamera_def example_camera_config_def show_int_small
      numeral_2_eq_2)

lemma show_int_10_20: "show_int 10 = ''10''" "show_int 20 = ''20''" "show_int 5 = ''5''"
  "show_int 178 = ''178''" "show_int 90 = ''90''"
  by (simp_all add: show_int_def digits.simps digit_char_def)

lemmas ptz_eval_defs = example_state_def NewCamera_def example_camera_config_def
  set_position_then_move_def SetPTZPosition_def GetPTZPosition_def PTZMove_def SendCommand_def
  allowedPrefixes_def HasPrefix_def http_Do_def unreachable_camera_def accepting_camera_def
  example_net_lib_def move_command_def preset_speed_def move_speed_def Let_def

lemma ex_preset_unreachable:
  "GotoPreset example_net_lib id unreachable_camera example_state ''cam1_main'' ''1'' None
     = (Some (SendCommandFailed ''connection refused''),
        \<lparr> cameras = [(NewCamera example_camera_config)\<lparr> ptzPan := 10, ptzTilt := 20 \<rparr>],
          wire = [command_request example_camera_config (exec_json ''move 10 20 5'')] \<rparr>)"
  by (simp add: GotoPreset_def example_profile example_preset_1 example_cap[simplified])
     (simp add: ptz_eval_defs show_int_10_20)

lemma ex_preset_out_of_range:
  "GotoPreset example_net_lib id accepting_camera example_state ''cam1_main'' ''2'' None
     = (Some (PanOutOfRange 400),
        \<lparr> cameras = [(NewCamera example_camera_config)\<lparr> ptzPan := 400, ptzTilt := 20 \<rparr>],
          wire = [] \<rparr>)"
  by (simp add: GotoPreset_def example_profile example_preset_2 example_cap[simplified])
     (simp add: ptz_eval_defs)

lemma ex_absolute_unreachable:
  "AbsoluteMove example_net_lib id unreachable_camera example_state ''cam1_main'' (pan_tilt 0 0) None
     = (Some (SendCommandFailed ''connection refused''),
        \<lparr> cameras = [(NewCamera example_camera_config)\<lparr> ptzPan := 178, ptzTilt := 90 \<rparr>],
          wire = [command_request example_camera_config (exec_json ''move 178 90 5'')] \<rparr>)"
  by (simp add: AbsoluteMove_def example_profile example_cap[simplified] pan_tilt_def)
     (simp add: ptz_eval_defs show_int_10_20 ONVIFToAtomCam_def clamp_def math_Round_def go_int_def)

text \<open>
  Claim C9, as stated, fails: from the tracked position (177, 90), \<open>GotoPreset\<close> towards
  an unreachable camera returns the transport error and leaves (10, 20) tracked;
  \<open>GotoPreset\<close> for a preset with pan 400 is rejected as out of range, sends nothing and
  leaves (400, 20) tracked; \<open>AbsoluteMove\<close> towards an unreachable camera returns the
  transport error and leaves (178, 90) tracked.
\<close>

theorem tracked_position_counterexample:
  "GetPTZPosition example_state 0 = (177, 90)
   \<and> fst (GotoPreset example_net_lib id unreachable_camera example_state ''cam1_main'' ''1'' None)
       = Some (SendCommandFailed ''connection refused'')
   \<and> GetPTZPosition
        (snd (GotoPreset example_net_lib id unreachable_camera example_state ''cam1_main'' ''1'' None))
        0 = (10, 20)
   \<and> fst (GotoPreset example_net_lib id accepting_camera example_state ''cam1_main'' ''2'' None)
       = Some (PanOutOfRange 400)
   \<and> GetPTZPosition
        (snd (GotoPreset example_net_lib id accepting_camera example_state ''cam1_main'' ''2'' None))
        0 = (400, 20)
   \<and> fst (AbsoluteMove example_net_lib id unreachable_camera example_state ''cam1_main''
             (pan_tilt 0 0) None)
       = Some (SendCommandFailed ''connection refused'')
   \<and> GetPTZPosition
        (snd (AbsoluteMove example_net_lib id unreachable_camera example_state ''cam1_main''
               (pan_tilt 0 0) None))
        0 = (178, 90)"
  by (simp add: ex_preset_unreachable ex_preset_out_of_range ex_absolute_unreachable
      GetPTZPosition_def)
     (simp add: example_state_def NewCamera_def example_camera_config_def)


theorem tracked_position_set_before_move_witness:
  "GetProfileByToken (cameras example_state) ''cam1_main''
     = Some \<lparr> CameraIx = 0, Stream = hd (Streams example_camera_config) \<rparr>
   \<and> CapPTZ (Capabilities (Config (cameras example_state ! 0)))
   \<and> PanTilt (pan_tilt (3 / 5) (4 / 5)) = Some \<lparr> Space = [], X = 3 / 5, Y = 4 / 5 \<rparr>
   \<and> \<not> velocityMag id (3 / 5) (4 / 5) < id 0.01
   \<and> find_preset 0 (Presets (PTZ (Config (cameras example_state ! 0)))) ''1''
       = Some \<lparr> PresetName = ''door'', Pan = 10, Tilt = 20, Token = ''1'',
                MQTTBroker = [], MQTTTopic = [], MQTTMessage = [] \<rparr>
   \<and> PanTilt (pan_tilt 0 0) = Some \<lparr> Space = [], X = 0, Y = 0 \<rparr>
   \<and> PanTilt (pan_tilt (1 / 10) 0) = Some \<lparr> Space = [], X = 1 / 10, Y = 0 \<rparr>
   \<and> fst (GotoPreset example_net_lib id unreachable_camera example_state ''cam1_main'' ''1'' None)
       = Some (SendCommandFailed ''connection refused'')
   \<and> tracked_is_commanded example_net_lib unreachable_camera example_state 0
        (preset_speed id None)
        (GotoPreset example_net_lib id unreachable_camera example_state ''cam1_main'' ''1'' None)
   \<and> GetPTZPosition
        (snd (GotoPreset example_net_lib id unreachable_camera example_state ''cam1_main'' ''1'' None))
        0 = (10, 20)
   \<and> tracked_is_commanded example_net_lib unreachable_camera example_state 0
        (move_speed id None)
        (AbsoluteMove example_net_lib id unreachable_camera example_state ''cam1_main''
           (pan_tilt 0 0) None)
   \<and> tracked_is_commanded example_net_lib unreachable_camera example_state 0
        (move_speed id None)
        (RelativeMove example_net_lib id unreachable_camera example_state ''cam1_main''
           (pan_tilt (1 / 10) 0) None)
   \<and> cameras (snd (GotoPreset example_net_lib id unreachable_camera example_state
                      ''cam1_main'' ''1'' None))
       = cameras (snd (GotoPreset example_net_lib id accepting_camera example_state
                      ''cam1_main'' ''1'' None))"
proof -
  have v: "PanTilt (pan_tilt (3 / 5) (4 / 5)) = Some \<lparr> Space = [], X = 3 / 5, Y = 4 / 5 \<rparr>"
    and a: "PanTilt (pan_tilt 0 0) = Some \<lparr> Space = [], X = 0, Y = 0 \<rparr>"
    and r: "PanTilt (pan_tilt (1 / 10) 0) = Some \<lparr> Space = [], X = 1 / 10, Y = 0 \<rparr>"
    by (simp_all add: pan_tilt_def)
  note inst = tracked_position_set_before_move[OF example_profile example_cap,
      where lib = example_net_lib and fl = id and srv = unreachable_camera
        and other = accepting_camera
        and velocity = "pan_tilt (3 / 5) (4 / 5)" and v = "\<lparr> Space = [], X = 3 / 5, Y = 4 / 5 \<rparr>"
        and ptok = "''1''" and pspeed = None
        and preset = "\<lparr> PresetName = ''door'', Pan = 10, Tilt = 20, Token = ''1'',
                MQTTBroker = [], MQTTTopic = [], MQTTMessage = [] \<rparr>"
        and position = "pan_tilt 0 0" and pt = "\<lparr> Space = [], X = 0, Y = 0 \<rparr>" and aspeed = None
        and translation = "pan_tilt (1 / 10) 0" and tr = "\<lparr> Space = [], X = 1 / 10, Y = 0 \<rparr>"
        and rspeed = None and hspeed = None]
  have err: "fst (GotoPreset example_net_lib id unreachable_camera example_state ''cam1_main'' ''1'' None)
       = Some (SendCommandFailed ''connection refused'')"
    by (simp add: ex_preset_unreachable)
  show ?thesis
    using inst example_profile example_cap v a r big_mag example_preset_1 err
    by simp
qed

section \<open>Properties of the SOAP gateway\<close>

lemma scan_blanks: "scan_tags None (replicate n (CHR '' '')) = []"
  by (induction n) simp_all

lemma time_tokens:
  "GetAction_loop False (scan_tags None (soap_envelope time_query @ replicate n (CHR '' '')))
     = Some ''GetSystemDateAndTime''"
  by (simp add: soap_envelope_def time_query_def tag_tokens_def local_part_def scan_blanks)

lemma info_tokens:
  "GetAction_loop False (scan_tags None (soap_envelope info_query))
     = Some ''GetDeviceInformation''"
  by (simp add: soap_envelope_def info_query_def tag_tokens_def local_part_def)

lemma envelope_length: "length (soap_envelope time_query) = 170"
  by (simp add: soap_envelope_def time_query_def)





lemma post_fields: "Method (post path content) = ''POST''" "URLPath (post path content) = path"
  by (simp_all add: post_def)








lemma authenticate_then_rejects:
  assumes "fst (validateAuth s clock (nonces st) body) \<noteq> None"
  shows "authenticate_then s clock st body False dispatch
           = (SendFault NewNotAuthorizedFault,
              st\<lparr> nonces := snd (validateAuth s clock (nonces st) body) \<rparr>)"
  using assms
  by (cases "validateAuth s clock (nonces st) body")
     (auto simp: authenticate_then_def split: option.splits)

lemma authenticate_then_exempt:
  "authenticate_then s clock st body True dispatch
     = (fst (dispatch (services st)), st\<lparr> services := snd (dispatch (services st)) \<rparr>)"
  by (cases "dispatch (services st)") (simp add: authenticate_then_def)

lemma read_request_Some:
  assumes "ReadAll_LimitReader (ReqBody r) (2 ^ 20) = Some body"
    and "GetAction (xml s) body = Some action"
  shows "read_request s st r k = k body action"
  using assms by (simp add: read_request_def)

lemma validateAuth_no_header:
  assumes "Unmarshal_Envelope (xml s) body = Some envelope" and "Header envelope = None"
  shows "validateAuth s clock used body = (Some MissingSecurityHeader, used)"
  using assms by (simp add: validateAuth_def)

lemma time_query_device_switch:
  "device_switch s body ''GetSystemDateAndTime'' dflt svc
     = (SendResponse (Some (fst (nullary_op (ops s) ''GetSystemDateAndTime'' svc))),
        snd (nullary_op (ops s) ''GetSystemDateAndTime'' svc))"
  by (simp add: device_switch_def run_nullary_def split: prod.splits)

lemma ValidateUsernameToken_accepts_iff:
  "(fst (ValidateUsernameToken lib t1 t2 used (Some sec) eu ep) = None)
     = credentials_ok lib t2 used sec eu ep"
  by (auto simp: ValidateUsernameToken_def digest_checks_def LoadOrStore_def
      ConstantTimeCompare_def credentials_ok_def Let_def PasswordDigest_URI_nonempty
      split: option.splits)

lemma validateAuth_block:
  "security_block (xml s) body = Some sec \<Longrightarrow>
     validateAuth s clock used body
       = ValidateUsernameToken (std s) (fst clock) (snd clock) used (Some sec)
           (AuthUsername (auth s)) (AuthPassword (auth s))"
  by (auto simp: validateAuth_def security_block_def split: option.splits)

lemma validateAuth_no_block:
  "security_block (xml s) body = None \<Longrightarrow>
     fst (validateAuth s clock used body) \<noteq> None \<and> snd (validateAuth s clock used body) = used"
  by (auto simp: validateAuth_def security_block_def split: option.splits)

lemma validateAuth_accepts_iff:
  "(fst (validateAuth s clock used body) = None) = valid_security_header s clock used body"
proof (cases "security_block (xml s) body")
  case None
  then show ?thesis
    using validateAuth_no_block[OF None, of clock used]
    by (simp add: valid_security_header_def)
next
  case (Some sec)
  then show ?thesis
    by (simp add: validateAuth_block[OF Some] valid_security_header_def
        ValidateUsernameToken_accepts_iff)
qed

lemma authenticate_then_accepts:
  assumes "fst (validateAuth s clock (nonces st) body) = None"
  shows "authenticate_then s clock st body False dispatch
           = (fst (dispatch (services st)),
              \<lparr> nonces = snd (validateAuth s clock (nonces st) body),
                services = snd (dispatch (services st)) \<rparr>)"
  using assms
  by (cases "validateAuth s clock (nonces st) body"; cases "dispatch (services st)")
     (auto simp: authenticate_then_def)

lemma ReadAll_small:
  "length content < 2 ^ 20 \<Longrightarrow>
     ReadAll_LimitReader (ReqBody (post path content)) (2 ^ 20) = Some content"
  by (simp add: ReadAll_LimitReader_def post_def)

lemma info_length: "length (soap_envelope info_query) < 2 ^ 20"
  by (simp add: soap_envelope_def info_query_def)

lemma time_length: "length (soap_envelope time_query) < 2 ^ 20"
  by (simp add: envelope_length)

lemma GetAction_info:
  "GetAction (xml example_server) (soap_envelope info_query) = Some ''GetDeviceInformation''"
  by (simp add: GetAction_def example_server_def example_xml_def info_tokens)

lemma GetAction_time:
  "GetAction (xml example_server) (soap_envelope time_query) = Some ''GetSystemDateAndTime''"
  using time_tokens[of 0] by (simp add: GetAction_def example_server_def example_xml_def)

lemma info_envelope:
  "Unmarshal_Envelope (xml example_server) (soap_envelope info_query)
     = Some \<lparr> Header = None, BodyContent = info_query \<rparr>"
proof -
  have "soap_envelope info_query \<noteq> soap_envelope time_query"
    by (simp add: soap_envelope_def info_query_def time_query_def)
  then show ?thesis by (simp add: example_server_def example_xml_def)
qed

lemma info_unauthenticated:
  "validateAuth example_server (0, 0) (nonces fresh_gateway) (soap_envelope info_query)
     = (Some MissingSecurityHeader, Map.empty)"
  by (simp add: validateAuth_no_header[OF info_envelope] fresh_gateway_def)

lemma GetAction_secret:
  "GetAction (xml example_server) (secured_envelope ''admin'' ''secret'' info_query)
     = Some ''GetDeviceInformation''"
  by (simp add: GetAction_def example_server_def example_xml_def secured_envelope_def
      info_query_def tag_tokens_def local_part_def)

lemma GetAction_guess:
  "GetAction (xml example_server) (secured_envelope ''admin'' ''guess'' info_query)
     = Some ''GetDeviceInformation''"
  by (simp add: GetAction_def example_server_def example_xml_def secured_envelope_def
      info_query_def tag_tokens_def local_part_def)

lemma secured_lengths:
  "length (secured_envelope ''admin'' ''secret'' info_query) < 2 ^ 20"
  "length (secured_envelope ''admin'' ''guess'' info_query) < 2 ^ 20"
  by (simp_all add: secured_envelope_def info_query_def)

lemma secured_distinct:
  "secured_envelope u p info_query \<noteq> soap_envelope time_query"
  "secured_envelope u p info_query \<noteq> soap_envelope info_query"
  "secured_envelope ''admin'' ''guess'' info_query \<noteq> secured_envelope ''admin'' ''secret'' info_query"
  by (simp_all add: secured_envelope_def soap_envelope_def)

lemma block_secret:
  "security_block (xml example_server) (secured_envelope ''admin'' ''secret'' info_query)
     = Some (plain_token ''admin'' ''secret'')"
  by (simp add: security_block_def example_server_def example_xml_def secured_distinct)

lemma block_guess:
  "security_block (xml example_server) (secured_envelope ''admin'' ''guess'' info_query)
     = Some (plain_token ''admin'' ''guess'')"
  by (simp add: security_block_def example_server_def example_xml_def secured_distinct)

lemma block_none:
  "security_block (xml example_server) (soap_envelope info_query) = None"
  by (simp add: security_block_def info_envelope)

lemma valid_secret:
  "valid_security_header example_server (0, 0) (nonces fresh_gateway)
     (secured_envelope ''admin'' ''secret'' info_query)"
  by (simp add: valid_security_header_def block_secret)
     (simp add: credentials_ok_def plain_token_def example_server_def)

lemma invalid_guess:
  "\<not> valid_security_header example_server (0, 0) (nonces fresh_gateway)
     (secured_envelope ''admin'' ''guess'' info_query)"
  by (simp add: valid_security_header_def block_guess)
     (simp add: credentials_ok_def plain_token_def example_server_def)

lemma validateAuth_secret:
  "validateAuth example_server (0, 0) (nonces fresh_gateway)
     (secured_envelope ''admin'' ''secret'' info_query) = (None, Map.empty)"
  by (simp only: validateAuth_block[OF block_secret])
     (simp add: ValidateUsernameToken_def ConstantTimeCompare_def plain_token_def
       example_server_def fresh_gateway_def)

lemma info_switch:
  "device_switch example_server body ''GetDeviceInformation'' dflt (services fresh_gateway)
     = (SendResponse (Some ''GetDeviceInformationResponse''), [''GetDeviceInformation''])"
  by (simp add: device_switch_def run_nullary_def example_server_def example_ops_def
      fresh_gateway_def)

text \<open>
  Claim C3. For a POST whose body was read and whose action was extracted. A request has
  a valid WS-Security header when its envelope parses and carries a Security block that
  is a valid token for the configured credentials; the validation of the gateway succeeds
  exactly for such requests. The Device handler answers every action other than
  \<open>GetSystemDateAndTime\<close> of a request without a valid header with the Not-Authorized
  fault and leaves the state of the services untouched (no operation is invoked), and so
  does the root handler for every action it routes; a request without Security block, with
  a wrong username, with a wrong plaintext password or with an unsupported password type
  has no valid header. With a valid header the Device handler goes on to the operation of
  the action. Both handlers answer \<open>GetSystemDateAndTime\<close> with the response of that
  operation without validating anything, so also without a Security header.
\<close>

theorem authentication_enforced_except_time_query:
  assumes "Method r = ''POST''"
    and "ReadAll_LimitReader (ReqBody r) (2 ^ 20) = Some body"
    and "GetAction (xml s) body = Some action"
  shows
    "(action \<noteq> ''GetSystemDateAndTime'' \<and> fst (validateAuth s clock (nonces st) body) \<noteq> None \<longrightarrow>
        handleDeviceService s clock st r
          = (SendFault NewNotAuthorizedFault,
             st\<lparr> nonces := snd (validateAuth s clock (nonces st) body) \<rparr>))
     \<and> (action \<noteq> ''GetSystemDateAndTime'' \<and> action \<in> set known_actions \<and> URLPath r = ''/''
          \<and> fst (validateAuth s clock (nonces st) body) \<noteq> None \<longrightarrow>
        handleRootService s clock st r
          = (SendFault NewNotAuthorizedFault,
             st\<lparr> nonces := snd (validateAuth s clock (nonces st) body) \<rparr>))
     \<and> (action = ''GetSystemDateAndTime'' \<longrightarrow>
        handleDeviceService s clock st r
          = (SendResponse (Some (fst (nullary_op (ops s) ''GetSystemDateAndTime'' (services st)))),
             st\<lparr> services := snd (nullary_op (ops s) ''GetSystemDateAndTime'' (services st)) \<rparr>))
     \<and> (action = ''GetSystemDateAndTime'' \<and> URLPath r = ''/'' \<longrightarrow>
        handleRootService s clock st r
          = (SendResponse (Some (fst (nullary_op (ops s) ''GetSystemDateAndTime'' (services st)))),
             st\<lparr> services := snd (nullary_op (ops s) ''GetSystemDateAndTime'' (services st)) \<rparr>))
     \<and> (Unmarshal_Envelope (xml s) body = Some envelope \<and> Header envelope = None \<longrightarrow>
        fst (validateAuth s clock (nonces st) body) = Some MissingSecurityHeader)
     \<and> (fst (validateAuth s clock (nonces st) body) = None)
         = valid_security_header s clock (nonces st) body
     \<and> (action \<noteq> ''GetSystemDateAndTime'' \<and> \<not> valid_security_header s clock (nonces st) body \<longrightarrow>
        fst (handleDeviceService s clock st r) = SendFault NewNotAuthorizedFault
        \<and> services (snd (handleDeviceService s clock st r)) = services st)
     \<and> (action \<noteq> ''GetSystemDateAndTime'' \<and> action \<in> set known_actions \<and> URLPath r = ''/''
          \<and> \<not> valid_security_header s clock (nonces st) body \<longrightarrow>
        fst (handleRootService s clock st r) = SendFault NewNotAuthorizedFault
        \<and> services (snd (handleRootService s clock st r)) = services st)
     \<and> (action \<noteq> ''GetSystemDateAndTime'' \<and> valid_security_header s clock (nonces st) body \<longrightarrow>
        handleDeviceService s clock st r
          = (fst (device_switch s body action (unknown_action action) (services st)),
             \<lparr> nonces = snd (validateAuth s clock (nonces st) body),
               services = snd (device_switch s body action (unknown_action action) (services st)) \<rparr>))
     \<and> (security_block (xml s) body = None \<longrightarrow> \<not> valid_security_header s clock (nonces st) body)
     \<and> (security_block (xml s) body = Some sec
          \<and> (Username (UsernameToken sec) \<noteq> AuthUsername (auth s)
               \<or> Type (Password (UsernameToken sec)) = []
                  \<and> Value (Password (UsernameToken sec)) \<noteq> AuthPassword (auth s)
               \<or> Type (Password (UsernameToken sec)) \<noteq> []
                  \<and> Type (Password (UsernameToken sec)) \<noteq> PasswordDigest_URI) \<longrightarrow>
        \<not> valid_security_header s clock (nonces st) body)"
proof -
  note iff = validateAuth_accepts_iff[of s clock "nonces st" body]
  have dev_rej: "handleDeviceService s clock st r
          = (SendFault NewNotAuthorizedFault,
             st\<lparr> nonces := snd (validateAuth s clock (nonces st) body) \<rparr>)"
    if "action \<noteq> ''GetSystemDateAndTime''" "fst (validateAuth s clock (nonces st) body) \<noteq> None"
    using assms that
    by (simp add: handleDeviceService_def read_request_Some routeToDeviceService_def
        authenticate_then_rejects)
  have root_rej: "handleRootService s clock st r
          = (SendFault NewNotAuthorizedFault,
             st\<lparr> nonces := snd (validateAuth s clock (nonces st) body) \<rparr>)"
    if a: "action \<noteq> ''GetSystemDateAndTime''" "action \<in> set known_actions" "URLPath r = ''/''"
      "fst (validateAuth s clock (nonces st) body) \<noteq> None"
  proof -
    have rej: "\<And>d. authenticate_then s clock st body False d
           = (SendFault NewNotAuthorizedFault,
              st\<lparr> nonces := snd (validateAuth s clock (nonces st) body) \<rparr>)"
      using a(4) by (simp add: authenticate_then_rejects)
    from a(2) have k: "action \<in> set device_actions \<or> action \<in> set media_actions
        \<or> action \<in> set ptz_actions \<or> action \<in> set imaging_actions"
      by (auto simp: known_actions_def)
    show ?thesis
      using assms a k
      by (auto simp add: handleRootService_def read_request_Some routeToDeviceService_def
          routeToMediaService_def routeToPTZService_def routeToImagingService_def rej)
  qed
  have dev_time: "handleDeviceService s clock st r
          = (SendResponse (Some (fst (nullary_op (ops s) ''GetSystemDateAndTime'' (services st)))),
             st\<lparr> services := snd (nullary_op (ops s) ''GetSystemDateAndTime'' (services st)) \<rparr>)"
    if "action = ''GetSystemDateAndTime''"
    using assms that
    by (simp add: handleDeviceService_def read_request_Some routeToDeviceService_def
        authenticate_then_exempt time_query_device_switch)
  have root_time: "handleRootService s clock st r
          = (SendResponse (Some (fst (nullary_op (ops s) ''GetSystemDateAndTime'' (services st)))),
             st\<lparr> services := snd (nullary_op (ops s) ''GetSystemDateAndTime'' (services st)) \<rparr>)"
    if "action = ''GetSystemDateAndTime''" "URLPath r = ''/''"
    using assms that
    by (simp add: handleRootService_def read_request_Some routeToDeviceService_def
        authenticate_then_exempt time_query_device_switch device_actions_def)
  have no_header: "fst (validateAuth s clock (nonces st) body) = Some MissingSecurityHeader"
    if "Unmarshal_Envelope (xml s) body = Some envelope" "Header envelope = None"
    using that by (simp add: validateAuth_no_header)
  have dev_ok: "handleDeviceService s clock st r
          = (fst (device_switch s body action (unknown_action action) (services st)),
             \<lparr> nonces = snd (validateAuth s clock (nonces st) body),
               services = snd (device_switch s body action (unknown_action action) (services st)) \<rparr>)"
    if "action \<noteq> ''GetSystemDateAndTime''" "valid_security_header s clock (nonces st) body"
    using assms that iff
    by (simp add: handleDeviceService_def read_request_Some routeToDeviceService_def
        authenticate_then_accepts)
  have none: "\<not> valid_security_header s clock (nonces st) body"
    if "security_block (xml s) body = None"
    using that by (simp add: valid_security_header_def)
  have wrong: "\<not> valid_security_header s clock (nonces st) body"
    if "security_block (xml s) body = Some sec"
      "Username (UsernameToken sec) \<noteq> AuthUsername (auth s)
               \<or> Type (Password (UsernameToken sec)) = []
                  \<and> Value (Password (UsernameToken sec)) \<noteq> AuthPassword (auth s)
               \<or> Type (Password (UsernameToken sec)) \<noteq> []
                  \<and> Type (Password (UsernameToken sec)) \<noteq> PasswordDigest_URI"
    using that by (auto simp: valid_security_header_def credentials_ok_def)
  have rejected: "fst (validateAuth s clock (nonces st) body) \<noteq> None"
    if "\<not> valid_security_header s clock (nonces st) body"
    using that iff by simp
  show ?thesis
  proof (intro conjI impI, goal_cases)
    case 1 then show ?case using dev_rej by blast
  next
    case 2 then show ?case using root_rej by blast
  next
    case 3 then show ?case using dev_time by blast
  next
    case 4 then show ?case using root_time by blast
  next
    case 5 then show ?case using no_header by blast
  next
    case 6 show ?case by (rule iff)
  next
    case 7 then show ?case using dev_rej rejected by simp
  next
    case 8 then show ?case using dev_rej rejected by simp
  next
    case 9 then show ?case using root_rej rejected by simp
  next
    case 10 then show ?case using root_rej rejected by simp
  next
    case 11 then show ?case using dev_ok by blast
  next
    case 12 then show ?case using none by blast
  next
    case 13 then show ?case using wrong by blast
  qed
qed

theorem authentication_enforced_except_time_query_witness:
  "Method (post ''/'' (soap_envelope info_query)) = ''POST''
   \<and> ReadAll_LimitReader (ReqBody (post ''/'' (soap_envelope info_query))) (2 ^ 20)
       = Some (soap_envelope info_query)
   \<and> GetAction (xml example_server) (soap_envelope info_query) = Some ''GetDeviceInformation''
   \<and> ''GetDeviceInformation'' \<in> set known_actions
   \<and> Unmarshal_Envelope (xml example_server) (soap_envelope info_query)
       = Some \<lparr> Header = None, BodyContent = info_query \<rparr>
   \<and> fst (validateAuth example_server (0, 0) (nonces fresh_gateway) (soap_envelope info_query))
       = Some MissingSecurityHeader
   \<and> handleDeviceService example_server (0, 0) fresh_gateway (post ''/'' (soap_envelope info_query))
       = (SendFault NewNotAuthorizedFault, fresh_gateway)
   \<and> handleRootService example_server (0, 0) fresh_gateway (post ''/'' (soap_envelope info_query))
       = (SendFault NewNotAuthorizedFault, fresh_gateway)
   \<and> GetAction (xml example_server) (soap_envelope time_query) = Some ''GetSystemDateAndTime''
   \<and> handleDeviceService example_server (0, 0) fresh_gateway (post ''/'' (soap_envelope time_query))
       = (SendResponse (Some ''GetSystemDateAndTimeResponse''),
          \<lparr> nonces = Map.empty, services = [''GetSystemDateAndTime''] \<rparr>)
   \<and> handleRootService example_server (0, 0) fresh_gateway (post ''/'' (soap_envelope time_query))
       = (SendResponse (Some ''GetSystemDateAndTimeResponse''),
          \<lparr> nonces = Map.empty, services = [''GetSystemDateAndTime''] \<rparr>)
   \<and> security_block (xml example_server) (secured_envelope ''admin'' ''guess'' info_query)
       = Some (plain_token ''admin'' ''guess'')
   \<and> Value (Password (UsernameToken (plain_token ''admin'' ''guess'')))
       \<noteq> AuthPassword (auth example_server)
   \<and> \<not> valid_security_header example_server (0, 0) (nonces fresh_gateway)
         (secured_envelope ''admin'' ''guess'' info_query)
   \<and> fst (handleDeviceService example_server (0, 0) fresh_gateway
             (post ''/onvif/device_service'' (secured_envelope ''admin'' ''guess'' info_query)))
       = SendFault NewNotAuthorizedFault
   \<and> services (snd (handleDeviceService example_server (0, 0) fresh_gateway
             (post ''/onvif/device_service'' (secured_envelope ''admin'' ''guess'' info_query))))
       = []
   \<and> fst (handleRootService example_server (0, 0) fresh_gateway
             (post ''/'' (secured_envelope ''admin'' ''guess'' info_query)))
       = SendFault NewNotAuthorizedFault
   \<and> valid_security_header example_server (0, 0) (nonces fresh_gateway)
         (secured_envelope ''admin'' ''secret'' info_query)
   \<and> handleDeviceService example_server (0, 0) fresh_gateway
        (post ''/onvif/device_service'' (secured_envelope ''admin'' ''secret'' info_query))
       = (SendResponse (Some ''GetDeviceInformationResponse''),
          \<lparr> nonces = Map.empty, services = [''GetDeviceInformation''] \<rparr>)"
proof -
  note m = post_fields(1)
  note ri = ReadAll_small[OF info_length, of "''/''"]
  note rt = ReadAll_small[OF time_length, of "''/''"]
  note rg = ReadAll_small[OF secured_lengths(2), of "''/onvif/device_service''"]
  note rg' = ReadAll_small[OF secured_lengths(2), of "''/''"]
  note rs = ReadAll_small[OF secured_lengths(1), of "''/onvif/device_service''"]
  have known: "''GetDeviceInformation'' \<in> set known_actions"
    by (simp add: known_actions_def device_actions_def)
  have same: "fresh_gateway\<lparr> nonces := Map.empty \<rparr> = fresh_gateway"
    by (simp add: fresh_gateway_def)
  have ops: "nullary_op (ops example_server) ''GetSystemDateAndTime'' (services fresh_gateway)
      = (''GetSystemDateAndTimeResponse'', [''GetSystemDateAndTime''])"
    by (simp add: example_server_def example_ops_def fresh_gateway_def)
  have upd: "fresh_gateway\<lparr> services := [''GetSystemDateAndTime''] \<rparr>
      = \<lparr> nonces = Map.empty, services = [''GetSystemDateAndTime''] \<rparr>"
    by (simp add: fresh_gateway_def)
  have svc0: "services fresh_gateway = []" by (simp add: fresh_gateway_def)
  have wrongpw: "Value (Password (UsernameToken (plain_token ''admin'' ''guess'')))
       \<noteq> AuthPassword (auth example_server)"
    by (simp add: plain_token_def example_server_def)
  note i1 = authentication_enforced_except_time_query[OF m ri GetAction_info,
      where clock = "(0, 0)" and st = fresh_gateway
        and envelope = "\<lparr> Header = None, BodyContent = info_query \<rparr>"
        and sec = "plain_token ''admin'' ''guess''"]
  note i2 = authentication_enforced_except_time_query[OF m rt GetAction_time,
      where clock = "(0, 0)" and st = fresh_gateway
        and envelope = "\<lparr> Header = None, BodyContent = info_query \<rparr>"
        and sec = "plain_token ''admin'' ''guess''"]
  note i3 = authentication_enforced_except_time_query[OF m rg GetAction_guess,
      where clock = "(0, 0)" and st = fresh_gateway
        and envelope = "\<lparr> Header = None, BodyContent = info_query \<rparr>"
        and sec = "plain_token ''admin'' ''guess''"]
  note i3' = authentication_enforced_except_time_query[OF m rg' GetAction_guess,
      where clock = "(0, 0)" and st = fresh_gateway
        and envelope = "\<lparr> Header = None, BodyContent = info_query \<rparr>"
        and sec = "plain_token ''admin'' ''guess''"]
  note i4 = authentication_enforced_except_time_query[OF m rs GetAction_secret,
      where clock = "(0, 0)" and st = fresh_gateway
        and envelope = "\<lparr> Header = None, BodyContent = info_query \<rparr>"
        and sec = "plain_token ''admin'' ''guess''"]
  have d1: "handleDeviceService example_server (0, 0) fresh_gateway (post ''/'' (soap_envelope info_query))
       = (SendFault NewNotAuthorizedFault, fresh_gateway)"
    and r1: "handleRootService example_server (0, 0) fresh_gateway (post ''/'' (soap_envelope info_query))
       = (SendFault NewNotAuthorizedFault, fresh_gateway)"
    using i1 known by (simp_all add: info_unauthenticated same post_fields)
  have d2: "handleDeviceService example_server (0, 0) fresh_gateway (post ''/'' (soap_envelope time_query))
       = (SendResponse (Some ''GetSystemDateAndTimeResponse''),
          \<lparr> nonces = Map.empty, services = [''GetSystemDateAndTime''] \<rparr>)"
    and r2: "handleRootService example_server (0, 0) fresh_gateway (post ''/'' (soap_envelope time_query))
       = (SendResponse (Some ''GetSystemDateAndTimeResponse''),
          \<lparr> nonces = Map.empty, services = [''GetSystemDateAndTime''] \<rparr>)"
    using i2 by (simp_all add: ops upd post_fields)
  have inv: "\<not> valid_security_header example_server (0, 0) (nonces fresh_gateway)
         (secured_envelope ''admin'' ''guess'' info_query)"
    using i3 block_guess wrongpw by (simp add: plain_token_def)
  have d3: "fst (handleDeviceService example_server (0, 0) fresh_gateway
             (post ''/onvif/device_service'' (secured_envelope ''admin'' ''guess'' info_query)))
       = SendFault NewNotAuthorizedFault"
    and s3: "services (snd (handleDeviceService example_server (0, 0) fresh_gateway
             (post ''/onvif/device_service'' (secured_envelope ''admin'' ''guess'' info_query))))
       = []"
    using i3 inv by (simp_all add: svc0)
  have r3: "fst (handleRootService example_server (0, 0) fresh_gateway
             (post ''/'' (secured_envelope ''admin'' ''guess'' info_query)))
       = SendFault NewNotAuthorizedFault"
    using i3' inv known by (simp add: post_fields)
  have d4: "handleDeviceService example_server (0, 0) fresh_gateway
        (post ''/onvif/device_service'' (secured_envelope ''admin'' ''secret'' info_query))
       = (SendResponse (Some ''GetDeviceInformationResponse''),
          \<lparr> nonces = Map.empty, services = [''GetDeviceInformation''] \<rparr>)"
    using i4 valid_secret by (simp add: info_switch validateAuth_secret)
  show ?thesis
    using m ri GetAction_info known info_envelope info_unauthenticated d1 r1 GetAction_time d2 r2
      block_guess wrongpw inv d3 s3 r3 valid_secret d4
    by simp
qed

end
